theory Spec2Isabelle
  imports Main "HOL-Library.Sublist"
begin

section \<open>JavaScript values\<close>

text \<open>
  Strings are lists of code units below 256. JSON values as the JavaScript runtime holds
  them; an object is the list of its own properties in insertion order.
\<close>

datatype json =
    JNull
  | JBool bool
  | JNum int
  | JStr string
  | JArr "json list"
  | JObj "(string \<times> json) list"

text \<open>Truthiness of a value (what \<^verbatim>\<open>if (v)\<close>, \<^verbatim>\<open>!v\<close> and \<^verbatim>\<open>v || d\<close> test).\<close>

fun truthy :: "json \<Rightarrow> bool" where
  "truthy JNull = False"
| "truthy (JBool b) = b"
| "truthy (JNum n) = (n \<noteq> 0)"
| "truthy (JStr s) = (s \<noteq> [])"
| "truthy (JArr xs) = True"
| "truthy (JObj kvs) = True"

text \<open>Property read \<^verbatim>\<open>v.k\<close>; \<open>None\<close> is \<^verbatim>\<open>undefined\<close>.\<close>

fun jget :: "json \<Rightarrow> string \<Rightarrow> json option" where
  "jget (JObj kvs) k = map_of kvs k"
| "jget v k = None"

text \<open>
  A thrown value: an \<^verbatim>\<open>Error\<close> with its message, or any other value, carried as
  the text \<^verbatim>\<open>String(value)\<close>.
\<close>

datatype thrown = Error string | NonError string

text \<open>\<^verbatim>\<open>error instanceof Error ? error.message : String(error)\<close>\<close>

fun message_of :: "thrown \<Rightarrow> string" where
  "message_of (Error m) = m"
| "message_of (NonError s) = s"

text \<open>
  A text built by the program: literal pieces, and the output of \<^verbatim>\<open>JSON.stringify(v)\<close>
  and of \<^verbatim>\<open>JSON.stringify(v, null, 2)\<close>, each kept as the value it serialises.
\<close>

datatype fragment = Lit string | Stringify json | Stringify2 json

definition sq :: string where
  "sq = [CHR 0x27]"

definition dq :: string where
  "dq = [CHR 0x22]"

text \<open>\<^verbatim>\<open>s || d\<close> on an optional string, and \<^verbatim>\<open>v || {}\<close> on an optional schema.\<close>

definition or_string :: "string option \<Rightarrow> string \<Rightarrow> string" where
  "or_string s d = (case s of Some x \<Rightarrow> (if x \<noteq> [] then x else d) | None \<Rightarrow> d)"

definition or_empty_object :: "json option \<Rightarrow> json" where
  "or_empty_object v = (case v of Some x \<Rightarrow> (if truthy x then x else JObj []) | None \<Rightarrow> JObj [])"

text \<open>
  \<^verbatim>\<open>s.replace(pat, rep)\<close> with a string pattern: the first occurrence is replaced.
  (No \<^verbatim>\<open>$\<close> pattern occurs in the replacements of this program.)
\<close>

fun replace_first :: "string \<Rightarrow> string \<Rightarrow> string \<Rightarrow> string" where
  "replace_first pat rep [] = (if pat = [] then rep else [])"
| "replace_first pat rep (c # cs) =
     (if prefix pat (c # cs) then rep @ drop (length pat) (c # cs)
      else c # replace_first pat rep cs)"

text \<open>\<^verbatim>\<open>s.includes(sub)\<close>\<close>

fun includes_str :: "string \<Rightarrow> string \<Rightarrow> bool" where
  "includes_str [] sub = (sub = [])"
| "includes_str (c # cs) sub = (prefix sub (c # cs) \<or> includes_str cs sub)"

text \<open>
  What the program takes from the JavaScript runtime: \<^verbatim>\<open>decodeURIComponent\<close> (which
  throws a URIError on a malformed escape), the date part of
  \<^verbatim>\<open>new Date(Date.now() + ms).toISOString()\<close>, whether \<^verbatim>\<open>new URL(v)\<close> throws,
  \<^verbatim>\<open>JSON.parse\<close> (\<open>Inl\<close> carries \<^verbatim>\<open>String(e)\<close> of the SyntaxError) and
  \<^verbatim>\<open>String.prototype.toUpperCase\<close>.
\<close>

record runtime =
  decodeURIComponent :: "string \<Rightarrow> thrown + string"
  isoDateAfter :: "nat \<Rightarrow> string"
  new_URL :: "json \<Rightarrow> thrown option"
  JSON_parse :: "string \<Rightarrow> string + json"
  toUpperCase :: "string \<Rightarrow> string"

section \<open>Data model (types of the MCP SDK and of types.ts, as service.ts uses them)\<close>

datatype status = connecting | connected | disconnected

record Tool =
  tool_name :: string
  tool_description :: "string option"
  tool_inputSchema :: "json option"
  tool_outputSchema :: "json option"

record Resource =
  res_uri :: string
  res_name :: string
  res_description :: "string option"
  res_mimeType :: "string option"
  res_templateUri :: "string option"

text \<open>A template's schema: a JSON schema copied from a tool, or one of the Zod objects of
  the two template modules, named.\<close>

datatype schema = JsonSchema json | ZodSchema string

record ResourceTemplate =
  tpl_uriTemplate :: string
  tpl_name :: string
  tpl_description :: "string option"
  tpl_iconUri :: "string option"
  tpl_inputSchema :: "schema option"
  tpl_outputSchema :: "schema option"

record McpServer =
  srv_name :: string
  srv_config :: json
  srv_status :: status
  srv_error :: "string option"
  srv_tools :: "Tool list option"
  srv_resources :: "Resource list option"
  srv_resourceTemplates :: "ResourceTemplate list option"
  srv_disabled :: bool

text \<open>
  \<open>srv_config\<close> is the stored string \<^verbatim>\<open>JSON.stringify(config)\<close>, kept as the value it
  serialises: two such strings are equal exactly when the values are, the string is
  never empty, and \<^verbatim>\<open>JSON.parse\<close> of it gives the value back.
\<close>

record Content =
  c_uri :: string
  c_mimeType :: "string option"
  c_text :: "fragment list option"
  c_blob :: "string option"

text \<open>
  The SDK client and transport of one connection, as the behaviour of the remote
  provider behind them: what each request answers (\<open>Inl\<close>: the promise rejects).
\<close>

record Client =
  cl_connect :: "thrown option"
  cl_listTools :: "thrown + Tool list option"
  cl_listResources :: "thrown + Resource list option"
  cl_listResourceTemplates :: "thrown + ResourceTemplate list option"
  cl_callTool :: "string \<Rightarrow> json \<Rightarrow> nat \<Rightarrow> thrown + json"
  cl_readResource :: "string \<Rightarrow> thrown + Content list"
  cl_close :: "thrown option"

record Transport =
  tr_close :: "thrown option"

record McpConnection =
  server :: McpServer
  client :: Client
  transport :: Transport

text \<open>Requests sent to a provider and closes of its handles, in the order performed.\<close>

datatype event =
    CallTool string json nat
  | ReadResource string
  | Connect string
  | TransportClose string
  | ClientClose string

text \<open>
  The service object. \<open>trace\<close> is a history of the handshakes and closes the manager
  performed, kept to state what an operation did; the program does not read it.
  (The provider snapshot \<^verbatim>\<open>mcpProvider\<close> is built by \<^verbatim>\<open>buildMcpProviderData\<close> of
  utils/mcp.ts, which is not among the sources; it is read by no operation below.)
\<close>

record McpService =
  connections :: "McpConnection list"
  initializationError :: "string option"
  hasResourcefulServers :: bool
  trace :: "event list"

section \<open>Resource Router: readResource (service.ts, 551-711)\<close>

definition calculatorUri :: string where
  "calculatorUri = ''mcp://n8n/synthetic/calculator''"

definition weatherPrefix :: string where
  "weatherPrefix = ''mcp://n8n/synthetic/weather/''"

definition error_content :: "string \<Rightarrow> string \<Rightarrow> Content" where
  "error_content uri msg =
     \<lparr>c_uri = uri, c_mimeType = Some ''application/mcp-error'',
      c_text = Some [Lit msg], c_blob = None\<rparr>"

definition json_content :: "string \<Rightarrow> fragment \<Rightarrow> Content" where
  "json_content uri body =
     \<lparr>c_uri = uri, c_mimeType = Some ''application/json'',
      c_text = Some [body], c_blob = None\<rparr>"

definition calculatorErrorText :: "string \<Rightarrow> string" where
  "calculatorErrorText uri =
     ''Error: The calculator resource ('' @ uri @
     '') represents a tool and must be invoked using the CALL_TOOL action. It cannot be read directly.''"

definition placeholderData :: "runtime \<Rightarrow> string \<Rightarrow> json" where
  "placeholderData rt decoded =
     JObj [(''location'', JStr decoded),
           (''temperature'', JNum 22),
           (''condition'', JStr ''Sunny''),
           (''humidity'', JNum 65),
           (''windSpeed'', JNum 10),
           (''forecast'', JArr [
              JObj [(''date'', JStr (isoDateAfter rt 86400000)),
                    (''temperature'', JObj [(''min'', JNum 18), (''max'', JNum 24)]),
                    (''condition'', JStr ''Partly Cloudy'')],
              JObj [(''date'', JStr (isoDateAfter rt 172800000)),
                    (''temperature'', JObj [(''min'', JNum 17), (''max'', JNum 23)]),
                    (''condition'', JStr ''Sunny'')]])]"

text \<open>\<^verbatim>\<open>connection.server.tools || []\<close> (an array, empty or not, is truthy).\<close>

definition tools_of :: "McpConnection \<Rightarrow> Tool list" where
  "tools_of connection = (case srv_tools (server connection) of Some ts \<Rightarrow> ts | None \<Rightarrow> [])"

text \<open>\<^verbatim>\<open>result && Array.isArray(result.content) && result.content.length > 0\<close>, giving
  \<^verbatim>\<open>result.content[0]\<close>.\<close>

definition first_content :: "json \<Rightarrow> json option" where
  "first_content result =
     (if truthy result then
        (case jget result ''content'' of
           Some (JArr (x # xs)) \<Rightarrow> Some x
         | _ \<Rightarrow> None)
      else None)"

text \<open>Lines 615-643: the placeholder response; \<^verbatim>\<open>decodeURIComponent\<close> may throw.\<close>

definition weather_placeholder :: "runtime \<Rightarrow> string \<Rightarrow> string \<Rightarrow> thrown + Content list" where
  "weather_placeholder rt uri location =
     (case decodeURIComponent rt location of
        Inl e \<Rightarrow> Inl e
      | Inr decoded \<Rightarrow> Inr [json_content uri (Stringify (placeholderData rt decoded))])"

text \<open>Lines 588-643: the body of the \<^verbatim>\<open>try\<close> block of the weather branch.\<close>

definition weather_try ::
  "runtime \<Rightarrow> McpConnection \<Rightarrow> string \<Rightarrow> string \<Rightarrow> event list \<times> (thrown + Content list)" where
  "weather_try rt connection uri location =
     (let tools = tools_of connection in
      case find (\<lambda>tool. tool_name tool = ''weather'') tools of
        Some weatherTool \<Rightarrow>
          (let args = JObj [(''location'', JStr location)];
               sent = [CallTool ''weather'' args 10000] in
           case cl_callTool (client connection) ''weather'' args 10000 of
             Inl e \<Rightarrow> (sent, Inl e)
           | Inr result \<Rightarrow>
               (case first_content result of
                  Some item \<Rightarrow> (sent, Inr [json_content uri (Stringify item)])
                | None \<Rightarrow> (sent, weather_placeholder rt uri location)))
      | None \<Rightarrow> ([], weather_placeholder rt uri location))"

text \<open>Lines 581-656: the weather branch with its \<^verbatim>\<open>catch\<close>.\<close>

definition read_weather ::
  "runtime \<Rightarrow> McpConnection \<Rightarrow> string \<Rightarrow> event list \<times> (thrown + Content list)" where
  "read_weather rt connection uri =
     (let location = replace_first weatherPrefix [] uri in
      case weather_try rt connection uri location of
        (sent, Inl e) \<Rightarrow>
          (sent, Inr [error_content uri (''Error fetching weather data: '' @ message_of e)])
      | (sent, Inr response) \<Rightarrow> (sent, Inr response))"

text \<open>
  \<^verbatim>\<open>uri.match(/^mcp:\/\/([^\/]+)\/synthetic\/tool\/(.+)$/)\<close>: the two groups. The first
  group is the run of characters up to the first slash; the dot matches any character
  but a line terminator.
\<close>

definition line_terminator :: "char \<Rightarrow> bool" where
  "line_terminator c = (c = CHR 0x0A \<or> c = CHR 0x0D)"

definition toolResourceMatch :: "string \<Rightarrow> (string \<times> string) option" where
  "toolResourceMatch uri =
     (if prefix ''mcp://'' uri then
        (let rest = drop 6 uri;
             srv = takeWhile (\<lambda>c. c \<noteq> CHR ''/'') rest;
             after = dropWhile (\<lambda>c. c \<noteq> CHR ''/'') rest in
         if srv \<noteq> [] \<and> prefix ''/synthetic/tool/'' after then
           (let toolName = drop 16 after in
            if toolName \<noteq> [] \<and> \<not> list_ex line_terminator toolName
            then Some (srv, toolName) else None)
         else None)
      else None)"

definition toolInfo :: "Tool \<Rightarrow> string \<Rightarrow> string \<Rightarrow> json" where
  "toolInfo tool serverName toolName =
     JObj [(''name'', JStr (tool_name tool)),
           (''description'',
              JStr (or_string (tool_description tool) (''The '' @ tool_name tool @ '' tool''))),
           (''inputSchema'', or_empty_object (tool_inputSchema tool)),
           (''outputSchema'', or_empty_object (tool_outputSchema tool)),
           (''usage'',
              JStr (''To use this tool, call the CALL_TOOL action with serverName: '' @ dq @
                    serverName @ dq @ '', toolName: '' @ dq @ toolName @ dq @
                    '' and appropriate arguments.''))]"

definition toolNotFound :: "string \<Rightarrow> string \<Rightarrow> thrown" where
  "toolNotFound toolName serverName =
     Error (''Tool '' @ sq @ toolName @ sq @ '' not found on server '' @ sq @ serverName @ sq)"

text \<open>Lines 665-692: the body of the \<^verbatim>\<open>try\<close> block of the tool-resource branch.\<close>

definition tool_resource_try ::
  "McpConnection \<Rightarrow> string \<Rightarrow> string \<Rightarrow> string \<Rightarrow> thrown + Content list" where
  "tool_resource_try connection serverName uri toolName =
     (let tools = tools_of connection in
      case find (\<lambda>t. tool_name t = toolName) tools of
        None \<Rightarrow> Inl (toolNotFound toolName serverName)
      | Some tool \<Rightarrow> Inr [json_content uri (Stringify2 (toolInfo tool serverName toolName))])"

text \<open>Lines 660-705: the tool-resource branch with its \<^verbatim>\<open>catch\<close>.\<close>

definition read_tool_resource ::
  "McpConnection \<Rightarrow> string \<Rightarrow> string \<Rightarrow> string \<Rightarrow> event list \<times> (thrown + Content list)" where
  "read_tool_resource connection serverName uri toolName =
     (case tool_resource_try connection serverName uri toolName of
        Inl e \<Rightarrow>
          ([], Inr [error_content uri (''Error accessing tool resource: '' @ message_of e)])
      | Inr response \<Rightarrow> ([], Inr response))"

text \<open>
  \<^verbatim>\<open>readResource(serverName, uri)\<close>: the requests it sent to the provider, and its
  outcome (\<open>Inl\<close>: the promise rejects with that error).
\<close>

definition readResource ::
  "runtime \<Rightarrow> McpService \<Rightarrow> string \<Rightarrow> string \<Rightarrow> event list \<times> (thrown + Content list)" where
  "readResource rt st serverName uri =
     (case find (\<lambda>conn. srv_name (server conn) = serverName) (connections st) of
        None \<Rightarrow> ([], Inl (Error (''No connection found for server: '' @ serverName)))
      | Some connection \<Rightarrow>
          if srv_disabled (server connection) then
            ([], Inl (Error (''Server '' @ dq @ serverName @ dq @ '' is disabled'')))
          else if uri = calculatorUri then
            ([], Inr [error_content uri (calculatorErrorText uri)])
          else if prefix weatherPrefix uri then
            read_weather rt connection uri
          else
            (case toolResourceMatch uri of
               Some (srv, toolName) \<Rightarrow>
                 if srv = serverName then read_tool_resource connection serverName uri toolName
                 else ([ReadResource uri], cl_readResource (client connection) uri)
             | None \<Rightarrow> ([ReadResource uri], cl_readResource (client connection) uri)))"

section \<open>Capability Synthesizer (service.ts, 266-357)\<close>

text \<open>
  The two template modules (templates/calculatorResourceTemplate.ts and
  templates/weatherResourceTemplate.ts). The \<^verbatim>\<open>examples\<close> field of the weather template
  is documentation only and is left out.
\<close>

definition calculatorResourceTemplate :: ResourceTemplate where
  "calculatorResourceTemplate =
     \<lparr>tpl_uriTemplate = ''mcp://n8n/synthetic/calculator'',
      tpl_name = ''Calculator Resource'',
      tpl_description = Some ''Evaluates a mathematical expression string using the n8n calculator tool, accessed via resource interface.'',
      tpl_iconUri = Some [],
      tpl_inputSchema = Some (ZodSchema ''CalculatorInputSchema''),
      tpl_outputSchema = Some (ZodSchema ''CalculatorOutputSchema'')\<rparr>"

definition weatherResourceTemplate :: ResourceTemplate where
  "weatherResourceTemplate =
     \<lparr>tpl_uriTemplate = ''mcp://n8n/synthetic/weather/{location}'',
      tpl_name = ''Weather Information Resource'',
      tpl_description = Some ''Retrieves current weather information and optional forecast for a specified location.'',
      tpl_iconUri = Some ''https://cdn-icons-png.flaticon.com/512/1163/1163661.png'',
      tpl_inputSchema = Some (ZodSchema ''WeatherInputSchema''),
      tpl_outputSchema = Some (ZodSchema ''WeatherOutputSchema'')\<rparr>"

text \<open>Lines 327-332 and 345-350: the resource made from a template.\<close>

definition template_resource :: "ResourceTemplate \<Rightarrow> Resource" where
  "template_resource t =
     \<lparr>res_uri = tpl_uriTemplate t, res_name = tpl_name t,
      res_description = tpl_description t, res_mimeType = None,
      res_templateUri = Some (tpl_uriTemplate t)\<rparr>"

definition calculatorResource :: Resource where
  "calculatorResource = template_resource calculatorResourceTemplate"

definition weatherResource :: Resource where
  "weatherResource = template_resource weatherResourceTemplate"

text \<open>\<^verbatim>\<open>tool.name.charAt(0).toUpperCase() + tool.name.slice(1)\<close>\<close>

definition capitalize :: "runtime \<Rightarrow> string \<Rightarrow> string" where
  "capitalize rt s = toUpperCase rt (take 1 s) @ drop 1 s"

definition toolUri :: "string \<Rightarrow> string \<Rightarrow> string" where
  "toolUri name toolName = ''mcp://'' @ name @ ''/synthetic/tool/'' @ toolName"

definition toolTemplateUri :: "string \<Rightarrow> string \<Rightarrow> string" where
  "toolTemplateUri name toolName = ''mcp://'' @ name @ ''/synthetic/tool-template/'' @ toolName"

text \<open>Lines 296-301.\<close>

definition toolResource :: "runtime \<Rightarrow> string \<Rightarrow> Tool \<Rightarrow> Resource" where
  "toolResource rt name tool =
     \<lparr>res_uri = toolUri name (tool_name tool),
      res_name = capitalize rt (tool_name tool) @ '' Tool'',
      res_description =
        Some (or_string (tool_description tool)
                (''Access the '' @ tool_name tool @ '' functionality'')),
      res_mimeType = None,
      res_templateUri = Some (toolTemplateUri name (tool_name tool))\<rparr>"

text \<open>Lines 304-310.\<close>

definition toolTemplate :: "runtime \<Rightarrow> string \<Rightarrow> Tool \<Rightarrow> ResourceTemplate" where
  "toolTemplate rt name tool =
     \<lparr>tpl_uriTemplate = toolTemplateUri name (tool_name tool),
      tpl_name = capitalize rt (tool_name tool) @ '' Template'',
      tpl_description =
        Some (or_string (tool_description tool)
                (''Template for '' @ tool_name tool @ '' functionality'')),
      tpl_iconUri = None,
      tpl_inputSchema = Some (JsonSchema (or_empty_object (tool_inputSchema tool))),
      tpl_outputSchema = Some (JsonSchema (or_empty_object (tool_outputSchema tool)))\<rparr>"

text \<open>\<^verbatim>\<open>if (!list.some(r => r.uri === x.uri)) list.push(x)\<close>, for resources and templates.\<close>

definition push_resource :: "Resource \<Rightarrow> Resource list \<Rightarrow> Resource list" where
  "push_resource r rs = (if \<not> list_ex (\<lambda>x. res_uri x = res_uri r) rs then rs @ [r] else rs)"

definition push_template :: "ResourceTemplate \<Rightarrow> ResourceTemplate list \<Rightarrow> ResourceTemplate list" where
  "push_template t ts =
     (if \<not> list_ex (\<lambda>x. tpl_uriTemplate x = tpl_uriTemplate t) ts then ts @ [t] else ts)"

text \<open>Lines 289-320: the loop over the tools, on the two running collections.\<close>

fun synthesize_tools ::
  "runtime \<Rightarrow> string \<Rightarrow> Tool list \<Rightarrow> Resource list \<times> ResourceTemplate list \<Rightarrow>
   Resource list \<times> ResourceTemplate list" where
  "synthesize_tools rt name [] acc = acc"
| "synthesize_tools rt name (tool # tools) (rs, ts) =
     (if tool_name tool = ''calculator'' then synthesize_tools rt name tools (rs, ts)
      else synthesize_tools rt name tools
             (push_resource (toolResource rt name tool) rs,
              push_template (toolTemplate rt name tool) ts))"

text \<open>
  Lines 267-270: \<^verbatim>\<open>(config.type === "sse" && url?.includes("n8n.cloud")) || url?.includes("n8n.io")\<close>;
  \<^verbatim>\<open>url\<close> is a string when present (its type in types.ts).
\<close>

definition url_includes :: "json \<Rightarrow> string \<Rightarrow> bool" where
  "url_includes config sub =
     (case jget config ''url'' of Some (JStr u) \<Rightarrow> includes_str u sub | _ \<Rightarrow> False)"

definition isN8nServer :: "json \<Rightarrow> bool" where
  "isN8nServer config =
     ((jget config ''type'' = Some (JStr ''sse'') \<and> url_includes config ''n8n.cloud'')
      \<or> url_includes config ''n8n.io'')"

text \<open>Lines 280-357: the synthesized resources and templates of one connection.\<close>

definition synthesize ::
  "runtime \<Rightarrow> string \<Rightarrow> bool \<Rightarrow> Tool list \<Rightarrow> Resource list \<Rightarrow> ResourceTemplate list \<Rightarrow>
   Resource list \<times> ResourceTemplate list" where
  "synthesize rt name isN8n actualTools actualResources actualResourceTemplates =
     (let (rs1, ts1) =
            (if isN8n \<or> actualResources = []
             then synthesize_tools rt name actualTools (actualResources, actualResourceTemplates)
             else (actualResources, actualResourceTemplates));
          hasCalculatorTool = list_ex (\<lambda>tool. tool_name tool = ''calculator'') actualTools;
          (rs2, ts2) =
            (if hasCalculatorTool
             then (push_resource calculatorResource rs1,
                   push_template calculatorResourceTemplate ts1)
             else (rs1, ts1));
          hasWeatherTool = list_ex (\<lambda>tool. tool_name tool = ''weather'') actualTools
      in if hasWeatherTool
         then (push_resource weatherResource rs2, push_template weatherResourceTemplate ts2)
         else (rs2, ts2))"

section \<open>Connection Manager (service.ts, 165-482 and 713-750)\<close>

definition getServerConnection :: "McpService \<Rightarrow> string \<Rightarrow> McpConnection option" where
  "getServerConnection st serverName =
     find (\<lambda>conn. srv_name (server conn) = serverName) (connections st)"

definition getServers :: "McpService \<Rightarrow> McpServer list" where
  "getServers st =
     (case initializationError st of
        Some err \<Rightarrow> (if err \<noteq> [] then [] else map server (connections st))
      | None \<Rightarrow> map server (connections st))"

definition updateResourceAvailability :: "McpService \<Rightarrow> McpService" where
  "updateResourceAvailability st =
     st\<lparr>hasResourcefulServers :=
          list_ex (\<lambda>srv. srv_status srv = connected \<and>
                         (case srv_resources srv of Some rs \<Rightarrow> rs \<noteq> [] | None \<Rightarrow> False))
                  (getServers st)\<rparr>"

definition appendErrorMessage :: "string \<Rightarrow> McpServer \<Rightarrow> McpServer" where
  "appendErrorMessage err srv =
     srv\<lparr>srv_error :=
           Some (case srv_error srv of
                   Some old \<Rightarrow> (if old \<noteq> [] then old @ [CHR 0x0A] @ err else err)
                 | None \<Rightarrow> err)\<rparr>"

text \<open>
  Assignment to the fields of a connection object that is an element of
  \<^verbatim>\<open>this.connections\<close>: the first connection of that name (the one
  \<^verbatim>\<open>getServerConnection\<close> returns) gets a new server record.
\<close>

fun mutate_server ::
  "string \<Rightarrow> (McpServer \<Rightarrow> McpServer) \<Rightarrow> McpConnection list \<Rightarrow> McpConnection list" where
  "mutate_server name f [] = []"
| "mutate_server name f (conn # conns) =
     (if srv_name (server conn) = name then conn\<lparr>server := f (server conn)\<rparr> # conns
      else conn # mutate_server name f conns)"

text \<open>
  Lines 389-403. A failing \<^verbatim>\<open>transport.close()\<close> skips \<^verbatim>\<open>client.close()\<close>; either
  failure is logged and the connection is removed all the same.
\<close>

definition deleteConnection :: "string \<Rightarrow> McpService \<Rightarrow> McpService" where
  "deleteConnection name st =
     (case getServerConnection st name of
        None \<Rightarrow> st
      | Some connection \<Rightarrow>
          st\<lparr>connections := filter (\<lambda>conn. srv_name (server conn) \<noteq> name) (connections st),
             trace := trace st @ TransportClose name #
                        (if tr_close (transport connection) = None then [ClientClose name] else [])\<rparr>)"

text \<open>Lines 205-228: \<open>Some e\<close> when building the transport throws \<open>e\<close>.\<close>

definition buildStdioClientTransport :: "string \<Rightarrow> json \<Rightarrow> thrown option" where
  "buildStdioClientTransport name config =
     (case jget config ''command'' of
        Some c \<Rightarrow> (if truthy c then None
                   else Some (Error (''Missing command for stdio MCP server '' @ name)))
      | None \<Rightarrow> Some (Error (''Missing command for stdio MCP server '' @ name)))"

definition buildSseClientTransport :: "runtime \<Rightarrow> string \<Rightarrow> json \<Rightarrow> thrown option" where
  "buildSseClientTransport rt name config =
     (case jget config ''url'' of
        Some u \<Rightarrow> (if truthy u then new_URL rt u
                   else Some (Error (''Missing URL for SSE MCP server '' @ name)))
      | None \<Rightarrow> Some (Error (''Missing URL for SSE MCP server '' @ name)))"

definition buildTransport :: "runtime \<Rightarrow> string \<Rightarrow> json \<Rightarrow> thrown option" where
  "buildTransport rt name config =
     (if jget config ''type'' = Some (JStr ''stdio'')
      then buildStdioClientTransport name config
      else buildSseClientTransport rt name config)"

text \<open>Lines 409-482: the three capability fetches; every failure gives the empty list.\<close>

definition is_method_not_found :: "thrown \<Rightarrow> bool" where
  "is_method_not_found e =
     (case e of Error m \<Rightarrow> includes_str m ''Method not found'' | NonError s \<Rightarrow> False)"

definition fetchToolsList :: "McpConnection \<Rightarrow> Tool list" where
  "fetchToolsList conn =
     (if srv_status (server conn) \<noteq> connected then []
      else (case cl_listTools (client conn) of
              Inl e \<Rightarrow> []
            | Inr response \<Rightarrow> (case response of Some tools \<Rightarrow> tools | None \<Rightarrow> [])))"

definition fetchResourcesList :: "McpConnection \<Rightarrow> Resource list" where
  "fetchResourcesList conn =
     (if srv_status (server conn) \<noteq> connected then []
      else (case (case cl_listResources (client conn) of
                    Inr response \<Rightarrow> Inr (case response of Some rs \<Rightarrow> rs | None \<Rightarrow> [])
                  | Inl e \<Rightarrow> (if is_method_not_found e then Inr [] else Inl e)) of
              Inr rs \<Rightarrow> rs
            | Inl e \<Rightarrow> []))"

definition fetchResourceTemplatesList :: "McpConnection \<Rightarrow> ResourceTemplate list" where
  "fetchResourceTemplatesList conn =
     (if srv_status (server conn) \<noteq> connected then []
      else (case (case cl_listResourceTemplates (client conn) of
                    Inr response \<Rightarrow> Inr (case response of Some ts \<Rightarrow> ts | None \<Rightarrow> [])
                  | Inl e \<Rightarrow> (if is_method_not_found e then Inr [] else Inl e)) of
              Inr ts \<Rightarrow> ts
            | Inl e \<Rightarrow> []))"

text \<open>Lines 371-377: the \<^verbatim>\<open>catch\<close> block of \<^verbatim>\<open>connectToServer\<close>.\<close>

definition connect_failed :: "string \<Rightarrow> thrown \<Rightarrow> McpService \<Rightarrow> McpService" where
  "connect_failed name e st =
     st\<lparr>connections :=
          mutate_server name
            (\<lambda>srv. appendErrorMessage (message_of e) (srv\<lparr>srv_status := disconnected\<rparr>))
            (connections st)\<rparr>"

text \<open>Lines 263-367: after the handshake, the final server record of the connection.\<close>

definition connected_server :: "runtime \<Rightarrow> string \<Rightarrow> json \<Rightarrow> McpConnection \<Rightarrow> McpServer" where
  "connected_server rt name config connection =
     (let conn = connection\<lparr>server := (server connection)\<lparr>srv_status := connected\<rparr>\<rparr>;
          actualTools = fetchToolsList conn;
          actualResources = fetchResourcesList conn;
          actualResourceTemplates = fetchResourceTemplatesList conn;
          (synthesizedResources, synthesizedTemplates) =
            synthesize rt name (isN8nServer config)
              actualTools actualResources actualResourceTemplates
      in \<lparr>srv_name = name, srv_config = config, srv_status = connected,
          srv_error = Some [], srv_tools = Some actualTools,
          srv_resources = Some synthesizedResources,
          srv_resourceTemplates = Some synthesizedTemplates,
          srv_disabled = False\<rparr>)"

text \<open>
  Lines 230-382. \<open>remote name\<close> is the client and transport that the SDK gives for that
  server during this operation. Every exception of the \<^verbatim>\<open>try\<close> block is caught, so the
  operation always returns; the transport callbacks, which run between operations, are
  not part of it.
\<close>

definition connectToServer ::
  "(string \<Rightarrow> Client \<times> Transport) \<Rightarrow> runtime \<Rightarrow> string \<Rightarrow> json \<Rightarrow> McpService \<Rightarrow> McpService" where
  "connectToServer remote rt name config st =
     (let st1 = st\<lparr>connections :=
                    filter (\<lambda>conn. srv_name (server conn) \<noteq> name) (connections st)\<rparr>
      in updateResourceAvailability
           (case buildTransport rt name config of
              Some e \<Rightarrow> connect_failed name e st1
            | None \<Rightarrow>
                (let connection =
                       \<lparr>server = \<lparr>srv_name = name, srv_config = config,
                                  srv_status = connecting, srv_error = None,
                                  srv_tools = None, srv_resources = None,
                                  srv_resourceTemplates = None, srv_disabled = False\<rparr>,
                        client = fst (remote name), transport = snd (remote name)\<rparr>;
                     st2 = st1\<lparr>connections := connections st1 @ [connection],
                               trace := trace st1 @ [Connect name]\<rparr>
                 in case cl_connect (client connection) of
                      Some e \<Rightarrow> connect_failed name e st2
                    | None \<Rightarrow>
                        st2\<lparr>connections :=
                              mutate_server name
                                (\<lambda>srv. connected_server rt name config connection)
                                (connections st2)\<rparr>)))"

text \<open>The names of a \<^verbatim>\<open>Set\<close> built from a list, in insertion order.\<close>

fun uniq :: "'a list \<Rightarrow> 'a list" where
  "uniq [] = []"
| "uniq (x # xs) = x # filter (\<lambda>y. y \<noteq> x) (uniq xs)"

text \<open>Lines 178-202: one iteration of the loop over \<^verbatim>\<open>Object.entries(serverConfigs)\<close>.\<close>

definition reconcile_entry ::
  "(string \<Rightarrow> Client \<times> Transport) \<Rightarrow> runtime \<Rightarrow> McpService \<Rightarrow> string \<times> json \<Rightarrow> McpService" where
  "reconcile_entry remote rt st entry =
     (case entry of (name, config) \<Rightarrow>
        (case find (\<lambda>conn. srv_name (server conn) = name) (connections st) of
           None \<Rightarrow> connectToServer remote rt name config st
         | Some currentConnection \<Rightarrow>
             if config \<noteq> srv_config (server currentConnection)
             then connectToServer remote rt name config (deleteConnection name st)
             else st))"

text \<open>
  Lines 165-203. \<open>serverConfigs\<close> is \<^verbatim>\<open>Object.entries\<close> of the configuration record: its
  keys are pairwise distinct.
\<close>

definition updateServerConnections ::
  "(string \<Rightarrow> Client \<times> Transport) \<Rightarrow> runtime \<Rightarrow> (string \<times> json) list \<Rightarrow> McpService \<Rightarrow> McpService" where
  "updateServerConnections remote rt serverConfigs st =
     (let currentNames = uniq (map (\<lambda>conn. srv_name (server conn)) (connections st));
          newNames = map fst serverConfigs;
          st1 = foldl (\<lambda>s name. if name \<notin> set newNames then deleteConnection name s else s)
                  st currentNames
      in foldl (reconcile_entry remote rt) st1 serverConfigs)"

text \<open>
  Lines 713-734. \<open>Inl\<close> would be the rejection with
  \<^verbatim>\<open>Failed to connect to ... MCP server\<close> of the \<^verbatim>\<open>catch\<close> block; \<^verbatim>\<open>deleteConnection\<close>
  and \<^verbatim>\<open>connectToServer\<close> catch every exception themselves and \<^verbatim>\<open>JSON.parse\<close> of the
  stored configuration returns it, so no path reaches that block.
\<close>

definition restartConnection ::
  "(string \<Rightarrow> Client \<times> Transport) \<Rightarrow> runtime \<Rightarrow> string \<Rightarrow> McpService \<Rightarrow> thrown + McpService" where
  "restartConnection remote rt serverName st =
     (case find (\<lambda>conn. srv_name (server conn) = serverName) (connections st) of
        None \<Rightarrow> Inr st
      | Some connection \<Rightarrow>
          (let config = srv_config (server connection);
               st1 = st\<lparr>connections :=
                         mutate_server serverName
                           (\<lambda>srv. srv\<lparr>srv_status := connecting, srv_error := Some []\<rparr>)
                           (connections st)\<rparr>
           in Inr (connectToServer remote rt serverName config
                    (deleteConnection serverName st1))))"

text \<open>
  An entry of the configuration is settled in a list of connections when reconciliation
  has nothing left to do for it: the first connection of its name stores its serialised
  configuration, or there is no connection of its name and no transport can be built
  for it.
\<close>

definition settled :: "runtime \<Rightarrow> McpConnection list \<Rightarrow> string \<times> json \<Rightarrow> bool" where
  "settled rt conns entry =
     (case entry of (name, config) \<Rightarrow>
        (case find (\<lambda>conn. srv_name (server conn) = name) conns of
           Some currentConnection \<Rightarrow> srv_config (server currentConnection) = config
         | None \<Rightarrow> buildTransport rt name config \<noteq> None))"

section \<open>Selection validation (utils/validation.ts, 33-99)\<close>

datatype 'a validation = Success 'a | Failure "fragment list"

text \<open>The argument \<^verbatim>\<open>data: unknown\<close>: a string (\<^verbatim>\<open>typeof data === 'string'\<close>) or any
  other value.\<close>

datatype data = StringData string | ObjectData json

text \<open>The characters \<^verbatim>\<open>\s\<close> matches and \<^verbatim>\<open>trim()\<close> strips, among code units below 256.\<close>

definition is_space :: "char \<Rightarrow> bool" where
  "is_space c = (c \<in> {CHR 0x09, CHR 0x0A, CHR 0x0B, CHR 0x0C, CHR 0x0D, CHR 0x20, CHR 0xA0})"

definition fence :: string where
  "fence = [CHR 0x60, CHR 0x60, CHR 0x60]"

text \<open>
  The regular expression of line 42: a fence, an optional \<^verbatim>\<open>json\<close>, white space, then
  the group: an opening brace and the shortest text up to a closing brace that white
  space and a fence follow. \<open>lazy_body\<close> reads the group after its opening brace.
\<close>

fun lazy_body :: "string \<Rightarrow> string option" where
  "lazy_body [] = None"
| "lazy_body (c # cs) =
     (if c = CHR 0x7D \<and> prefix fence (dropWhile is_space cs) then Some [c]
      else map_option (Cons c) (lazy_body cs))"

definition fence_match_at :: "string \<Rightarrow> string option" where
  "fence_match_at s =
     (if prefix fence s then
        (let r = drop 3 s;
             r1 = (if prefix ''json'' r then drop 4 r else r)
         in case dropWhile is_space r1 of
              [] \<Rightarrow> None
            | c # body \<Rightarrow> (if c = CHR 0x7B then map_option (Cons c) (lazy_body body) else None))
      else None)"

text \<open>\<^verbatim>\<open>data.match(...)\<close>: the group of the leftmost match.\<close>

fun fenced_json :: "string \<Rightarrow> string option" where
  "fenced_json [] = None"
| "fenced_json (c # cs) =
     (case fence_match_at (c # cs) of Some m \<Rightarrow> Some m | None \<Rightarrow> fenced_json cs)"

text \<open>Line 76: every fence, with \<^verbatim>\<open>json\<close> after it when there, is removed.\<close>

function strip_fences :: "string \<Rightarrow> string" where
  "strip_fences [] = []"
| "strip_fences (c # cs) =
     (if prefix (fence @ ''json'') (c # cs) then strip_fences (drop 6 cs)
      else if prefix fence (c # cs) then strip_fences (drop 2 cs)
      else c # strip_fences cs)"
  by pat_completeness auto
termination
  by (relation "measure length") auto

definition trim :: "string \<Rightarrow> string" where
  "trim s = rev (dropWhile is_space (rev (dropWhile is_space s)))"

text \<open>
  Lines 33-66. \<open>validate\<close> is the compiled schema \<^verbatim>\<open>ajv.compile(ToolSelectionSchema)\<close>:
  the error objects it reports for a value, none when the value is valid.
\<close>

definition validateToolSelection ::
  "runtime \<Rightarrow> (json \<Rightarrow> json list) \<Rightarrow> data \<Rightarrow> json validation" where
  "validateToolSelection rt validate d =
     (case (case d of
              StringData s \<Rightarrow>
                JSON_parse rt (case fenced_json s of Some jsonMatch \<Rightarrow> jsonMatch | None \<Rightarrow> s)
            | ObjectData v \<Rightarrow> Inr v) of
        Inl e \<Rightarrow> Failure [Lit (''Failed to parse JSON from tool selection response: '' @ e)]
      | Inr parsedInput \<Rightarrow>
          (case validate parsedInput of
             [] \<Rightarrow> Success parsedInput
           | err # errs \<Rightarrow>
               Failure [Lit ''Tool selection validation failed: '',
                        Stringify2 (JArr (err # errs))]))"

text \<open>Lines 68-99.\<close>

definition validateResourceSelection ::
  "runtime \<Rightarrow> (json \<Rightarrow> json list) \<Rightarrow> data \<Rightarrow> json validation" where
  "validateResourceSelection rt validate d =
     (case (case d of
              StringData s \<Rightarrow> JSON_parse rt (trim (strip_fences s))
            | ObjectData v \<Rightarrow> Inr v) of
        Inl e \<Rightarrow> Failure [Lit (''Failed to parse JSON from resource selection response: '' @ e)]
      | Inr parsedInput \<Rightarrow>
          (case validate parsedInput of
             [] \<Rightarrow> Success parsedInput
           | err # errs \<Rightarrow>
               Failure [Lit ''Resource selection validation failed: '',
                        Stringify2 (JArr (err # errs))]))"

subsection \<open>The selection schemas\<close>

text \<open>Error objects in the form ajv reports them, for the keywords \<^verbatim>\<open>required\<close> and
  \<^verbatim>\<open>type\<close>.\<close>

definition required_error :: "string \<Rightarrow> json" where
  "required_error p =
     JObj [(''instancePath'', JStr []),
           (''schemaPath'', JStr ''#/required''),
           (''keyword'', JStr ''required''),
           (''params'', JObj [(''missingProperty'', JStr p)]),
           (''message'', JStr (''must have required property '' @ sq @ p @ sq))]"

definition type_error :: "string \<Rightarrow> string \<Rightarrow> json" where
  "type_error p t =
     JObj [(''instancePath'', JStr (if p = [] then [] else ''/'' @ p)),
           (''schemaPath'', JStr (if p = [] then ''#/type'' else ''#/properties/'' @ p @ ''/type'')),
           (''keyword'', JStr ''type''),
           (''params'', JObj [(''type'', JStr t)]),
           (''message'', JStr (''must be '' @ t))]"

fun has_type :: "string \<Rightarrow> json \<Rightarrow> bool" where
  "has_type t (JStr s) = (t = ''string'')"
| "has_type t (JObj kvs) = (t = ''object'')"
| "has_type t (JBool b) = (t = ''boolean'')"
| "has_type t (JNum n) = (t = ''number'' \<or> t = ''integer'')"
| "has_type t (JArr xs) = (t = ''array'')"
| "has_type t JNull = (t = ''null'')"

text \<open>Every violation is collected (\<^verbatim>\<open>new Ajv({ allErrors: true })\<close>, line 9): the missing
  required properties, then the present properties of a wrong type.\<close>

definition required_errors :: "json \<Rightarrow> string list \<Rightarrow> json list" where
  "required_errors v ps = map required_error (filter (\<lambda>p. jget v p = None) ps)"

definition property_errors :: "json \<Rightarrow> (string \<times> string) list \<Rightarrow> json list" where
  "property_errors v pts =
     map (\<lambda>(p, t). type_error p t)
       (filter (\<lambda>(p, t). case jget v p of Some x \<Rightarrow> \<not> has_type t x | None \<Rightarrow> False) pts)"

text \<open>
  Modelled from the spec: the compiled \<^verbatim>\<open>ToolSelectionSchema\<close> of types.ts, which is not
  among the sources. The spec gives the tool selection as
  \<^verbatim>\<open>{serverName: string, toolName: string, arguments: object, reasoning?: string}\<close> or
  \<^verbatim>\<open>{noToolAvailable: true, reasoning?: string}\<close>, validated for its required fields or
  the escape field, all violations collected.
\<close>

definition ToolSelectionSchema :: "json \<Rightarrow> json list" where
  "ToolSelectionSchema v =
     (if \<not> has_type ''object'' v then [type_error [] ''object'']
      else if jget v ''noToolAvailable'' = Some (JBool True)
      then property_errors v [(''reasoning'', ''string'')]
      else required_errors v [''serverName'', ''toolName'', ''arguments''] @
           property_errors v [(''serverName'', ''string''), (''toolName'', ''string''),
                              (''arguments'', ''object''), (''reasoning'', ''string'')])"

section \<open>The bounded retry loop\<close>

datatype 'a selection = Selected 'a | Abandoned

text \<open>
  Modelled from the spec: \<^verbatim>\<open>withModelRetry\<close> of utils/mcp.ts, which is not among the
  sources (its call sites are: actions/readResourceAction.ts 203-213 and the tool
  action). The spec gives one selection attempt as Parse, SchemaValidate, then Accept, or
  Reject, Feedback and a new proposal by the model, bounded by a maximum retry count of
  which each failed attempt consumes one unit; on exhaustion the outcome is Abandoned, a
  normal result. \<open>validationFn\<close> parses and validates a response;
  \<open>createFeedbackPrompt\<close> builds the corrective prompt from the response and the error;
  \<open>model\<close> is the external model call. The result is the outcome and the number of
  attempts performed.
\<close>

fun withModelRetry ::
  "nat \<Rightarrow> (data \<Rightarrow> 'a validation) \<Rightarrow> (data \<Rightarrow> fragment list \<Rightarrow> fragment list) \<Rightarrow>
   (fragment list \<Rightarrow> data) \<Rightarrow> data \<Rightarrow> 'a selection \<times> nat" where
  "withModelRetry 0 validationFn createFeedbackPrompt model response = (Abandoned, 0)"
| "withModelRetry (Suc budget) validationFn createFeedbackPrompt model response =
     (case validationFn response of
        Success selection \<Rightarrow> (Selected selection, 1)
      | Failure errorMessage \<Rightarrow>
          (case withModelRetry budget validationFn createFeedbackPrompt model
                  (model (createFeedbackPrompt response errorMessage)) of
             (outcome, attempts) \<Rightarrow> (outcome, Suc attempts)))"

section \<open>Example inputs\<close>

text \<open>A runtime for the examples: its \<^verbatim>\<open>decodeURIComponent\<close> is the real one on the
  strings used below (a text without an escape is returned as it is, the lone percent
  sign is malformed).\<close>

definition example_runtime :: runtime where
  "example_runtime =
     \<lparr>decodeURIComponent =
        (\<lambda>s. if CHR ''%'' \<in> set s then Inl (Error ''URI malformed'') else Inr s),
      isoDateAfter = (\<lambda>ms. if ms = 86400000 then ''2025-05-01'' else ''2025-05-02''),
      new_URL = (\<lambda>v. None),
      JSON_parse = (\<lambda>s. Inl ''SyntaxError: Unexpected token''),
      toUpperCase =
        map (\<lambda>c. case map_of (zip ''abcdefghijklmnopqrstuvwxyz''
                                  ''ABCDEFGHIJKLMNOPQRSTUVWXYZ'') c of
                    Some u \<Rightarrow> u | None \<Rightarrow> c)\<rparr>"

text \<open>A provider that lists the given tools and no resources, and whose tool calls time
  out; with \<open>ok = False\<close> its handshake fails.\<close>

definition example_client :: "bool \<Rightarrow> Tool list \<Rightarrow> Client" where
  "example_client ok tools =
     \<lparr>cl_connect = (if ok then None else Some (Error ''SSE error: connection refused'')),
      cl_listTools = Inr (Some tools),
      cl_listResources = Inl (Error ''MCP error -32601: Method not found''),
      cl_listResourceTemplates = Inl (Error ''MCP error -32601: Method not found''),
      cl_callTool = (\<lambda>name args timeout. Inl (Error ''Request timed out'')),
      cl_readResource = (\<lambda>uri. Inl (Error ''Resource not found'')),
      cl_close = None\<rparr>"

definition calculator_tool :: Tool where
  "calculator_tool =
     \<lparr>tool_name = ''calculator'', tool_description = Some ''Evaluates an expression'',
      tool_inputSchema = None, tool_outputSchema = None\<rparr>"

definition weather_tool :: Tool where
  "weather_tool =
     \<lparr>tool_name = ''weather'', tool_description = None,
      tool_inputSchema = None, tool_outputSchema = None\<rparr>"

definition echo_tool :: Tool where
  "echo_tool =
     \<lparr>tool_name = ''echo'', tool_description = None,
      tool_inputSchema = None, tool_outputSchema = None\<rparr>"

definition search_tool :: Tool where
  "search_tool =
     \<lparr>tool_name = ''search'', tool_description = Some ''Searches the web'',
      tool_inputSchema = None, tool_outputSchema = None\<rparr>"

definition example_config :: json where
  "example_config =
     JObj [(''type'', JStr ''sse''), (''url'', JStr ''https://mcp.example.org/sse'')]"

definition example_configs :: "(string \<times> json) list" where
  "example_configs = [(''n8n'', example_config), (''files'', JObj [(''type'', JStr ''stdio'')])]"

definition example_connection :: "Tool list \<Rightarrow> bool \<Rightarrow> McpConnection" where
  "example_connection tools off =
     \<lparr>server = \<lparr>srv_name = ''n8n'', srv_config = example_config, srv_status = connected,
                 srv_error = Some [], srv_tools = Some tools, srv_resources = Some [],
                 srv_resourceTemplates = Some [], srv_disabled = off\<rparr>,
      client = example_client True tools,
      transport = \<lparr>tr_close = None\<rparr>\<rparr>"

definition example_service :: "McpConnection list \<Rightarrow> McpService" where
  "example_service conns =
     \<lparr>connections = conns, initializationError = None,
      hasResourcefulServers = False, trace = []\<rparr>"

definition example_remote :: "bool \<Rightarrow> string \<Rightarrow> Client \<times> Transport" where
  "example_remote ok name = (example_client ok [echo_tool], \<lparr>tr_close = None\<rparr>)"

definition selection_ok :: json where
  "selection_ok =
     JObj [(''serverName'', JStr ''n8n''), (''toolName'', JStr ''calculator''),
           (''arguments'', JObj [(''input'', JStr ''2+2'')])]"

definition selection_bad :: json where
  "selection_bad = JObj [(''serverName'', JStr ''n8n'')]"

section \<open>Properties of the Resource Router\<close>

lemma toolResourceMatch_calculator: "toolResourceMatch calculatorUri = None"
  by (simp add: toolResourceMatch_def calculatorUri_def)

lemma toolResourceMatch_weather: "prefix weatherPrefix uri \<Longrightarrow> toolResourceMatch uri = None"
  by (auto simp add: toolResourceMatch_def weatherPrefix_def prefix_def)


lemma toolResourceMatch_toolUri:
  assumes "srv \<noteq> []" and "CHR ''/'' \<notin> set srv"
      and "toolName \<noteq> []" and "\<not> list_ex line_terminator toolName"
  shows "toolResourceMatch (''mcp://'' @ srv @ ''/synthetic/tool/'' @ toolName) = Some (srv, toolName)"
proof -
  have tw: "takeWhile (\<lambda>c. c \<noteq> CHR ''/'') (srv @ ''/synthetic/tool/'' @ toolName) = srv"
    using assms(2) by (auto simp add: takeWhile_tail)
  have dw: "dropWhile (\<lambda>c. c \<noteq> CHR ''/'') (srv @ ''/synthetic/tool/'' @ toolName)
              = ''/synthetic/tool/'' @ toolName"
    using assms(2) by (auto simp add: dropWhile_append3)
  show ?thesis
    using assms(1,3,4) tw dw by (simp add: toolResourceMatch_def Let_def)
qed

lemma prefix_split: "prefix p s \<Longrightarrow> n = length p \<Longrightarrow> s = p @ drop n s"
  by (auto simp: prefix_def)

lemma toolResourceMatch_Some:
  assumes "toolResourceMatch uri = Some (srv, toolName)"
  shows "uri = ''mcp://'' @ srv @ ''/synthetic/tool/'' @ toolName \<and> srv \<noteq> [] \<and>
         CHR ''/'' \<notin> set srv \<and> toolName \<noteq> [] \<and> \<not> list_ex line_terminator toolName"
proof -
  let ?P = "\<lambda>c. c \<noteq> CHR ''/''"
  let ?rest = "drop 6 uri"
  from assms have p: "prefix ''mcp://'' uri"
    by (simp add: toolResourceMatch_def split: if_splits)
  with assms have a: "srv = takeWhile ?P ?rest" "srv \<noteq> []"
      "prefix ''/synthetic/tool/'' (dropWhile ?P ?rest)"
      "toolName = drop 16 (dropWhile ?P ?rest)" "toolName \<noteq> []"
      "\<not> list_ex line_terminator toolName"
    by (auto simp: toolResourceMatch_def Let_def split: if_splits)
  have u: "uri = ''mcp://'' @ ?rest"
    by (rule prefix_split[OF p]) simp
  have r: "?rest = srv @ dropWhile ?P ?rest"
    unfolding a(1) by simp
  have d: "dropWhile ?P ?rest = ''/synthetic/tool/'' @ toolName"
    unfolding a(4) by (rule prefix_split[OF a(3)]) simp
  have "uri = ''mcp://'' @ srv @ ''/synthetic/tool/'' @ toolName"
    using u r d by metis
  moreover have "CHR ''/'' \<notin> set srv"
    unfolding a(1) using set_takeWhileD by fastforce
  ultimately show ?thesis using a(2,5,6) by blast
qed

lemma toolResourceMatch_iff:
  "toolResourceMatch uri = Some (srv, toolName) \<longleftrightarrow>
     uri = ''mcp://'' @ srv @ ''/synthetic/tool/'' @ toolName \<and> srv \<noteq> [] \<and>
     CHR ''/'' \<notin> set srv \<and> toolName \<noteq> [] \<and> \<not> list_ex line_terminator toolName"
  using toolResourceMatch_Some toolResourceMatch_toolUri by blast

text \<open>
  C10. For every URI, \<^verbatim>\<open>readResource(serverName, uri)\<close> rejects before any synthetic
  handling, and sends nothing to a provider, when no connection of that name exists
  (error \<^verbatim>\<open>No connection found for server: ...\<close>) or when the named connection is
  disabled (error \<^verbatim>\<open>Server "..." is disabled\<close>).
\<close>

theorem readResource_checks_connection_first:
  "(find (\<lambda>conn. srv_name (server conn) = s) (connections st) = None \<longrightarrow>
      readResource rt st s uri = ([], Inl (Error (''No connection found for server: '' @ s)))) \<and>
   (find (\<lambda>conn. srv_name (server conn) = s) (connections st) = Some connection \<and>
    srv_disabled (server connection) \<longrightarrow>
      readResource rt st s uri =
        ([], Inl (Error (''Server '' @ dq @ s @ dq @ '' is disabled''))))"
  by (simp add: readResource_def)

theorem readResource_checks_connection_first_witness:
  "find (\<lambda>conn. srv_name (server conn) = ''n8n'') (connections (example_service [])) = None \<and>
   readResource example_runtime (example_service []) ''n8n'' calculatorUri =
     ([], Inl (Error ''No connection found for server: n8n'')) \<and>
   find (\<lambda>conn. srv_name (server conn) = ''n8n'')
     (connections (example_service [example_connection [weather_tool] True])) =
     Some (example_connection [weather_tool] True) \<and>
   srv_disabled (server (example_connection [weather_tool] True)) \<and>
   readResource example_runtime (example_service [example_connection [weather_tool] True])
     ''n8n'' ''mcp://n8n/synthetic/weather/Nowhere'' =
     ([], Inl (Error (''Server '' @ dq @ ''n8n'' @ dq @ '' is disabled'')))"
  using readResource_checks_connection_first
          [where s = "''n8n''" and st = "example_service []" and rt = example_runtime
             and uri = calculatorUri]
        readResource_checks_connection_first
          [where s = "''n8n''"
             and st = "example_service [example_connection [weather_tool] True]"
             and connection = "example_connection [weather_tool] True"
             and rt = example_runtime and uri = "''mcp://n8n/synthetic/weather/Nowhere''"]
  by (simp add: example_service_def example_connection_def)

text \<open>
  C2. For every server name with an existing connection that is not disabled, reading
  the fixed calculator URI returns one content item of MIME type
  \<^verbatim>\<open>application/mcp-error\<close> with the explanatory text, and sends no request to the
  provider (no tool call), whatever the tools of the connection are.
\<close>

theorem calculator_read_is_error_body:
  assumes "find (\<lambda>conn. srv_name (server conn) = s) (connections st) = Some connection"
      and "\<not> srv_disabled (server connection)"
  shows "readResource rt st s calculatorUri =
           ([], Inr [\<lparr>c_uri = calculatorUri,
                      c_mimeType = Some ''application/mcp-error'',
                      c_text = Some [Lit (calculatorErrorText calculatorUri)],
                      c_blob = None\<rparr>])"
  using assms by (simp add: readResource_def error_content_def)

theorem calculator_read_is_error_body_witness:
  "find (\<lambda>conn. srv_name (server conn) = ''n8n'')
     (connections (example_service [example_connection [calculator_tool] False])) =
     Some (example_connection [calculator_tool] False) \<and>
   \<not> srv_disabled (server (example_connection [calculator_tool] False)) \<and>
   readResource example_runtime (example_service [example_connection [calculator_tool] False])
     ''n8n'' calculatorUri =
     ([], Inr [\<lparr>c_uri = calculatorUri,
                c_mimeType = Some ''application/mcp-error'',
                c_text = Some [Lit (calculatorErrorText calculatorUri)],
                c_blob = None\<rparr>])"
  using calculator_read_is_error_body
          [where s = "''n8n''"
             and st = "example_service [example_connection [calculator_tool] False]"
             and connection = "example_connection [calculator_tool] False"
             and rt = example_runtime]
  by (simp add: example_service_def example_connection_def)




text \<open>
  C6, as the code has it. For every server name \<open>s\<close> that is not empty and holds no
  slash, with an existing connection that is not disabled, and every URI
  \<^verbatim>\<open>mcp://{s}/synthetic/tool/{toolName}\<close> whose tool name is not empty and holds no line
  terminator (the URIs that match the pattern of line 660 with the server segment equal
  to \<open>s\<close>, lemma \<open>toolResourceMatch_iff\<close>): no request is sent to the provider; when the connection has no tool of that name the call returns one content
  item of MIME type \<^verbatim>\<open>application/mcp-error\<close> whose text reports
  \<^verbatim>\<open>Tool '...' not found on server '...'\<close>; otherwise it returns one
  \<^verbatim>\<open>application/json\<close> item describing the tool (name, description, schemas, usage).
\<close>

theorem tool_resource_read:
  assumes "find (\<lambda>conn. srv_name (server conn) = s) (connections st) = Some connection"
      and "\<not> srv_disabled (server connection)"
      and "uri = ''mcp://'' @ s @ ''/synthetic/tool/'' @ toolName"
      and "s \<noteq> []" and "CHR ''/'' \<notin> set s"
      and "toolName \<noteq> []" and "\<not> list_ex line_terminator toolName"
  shows "(find (\<lambda>t. tool_name t = toolName) (tools_of connection) = None \<longrightarrow>
            readResource rt st s uri =
              ([], Inr [\<lparr>c_uri = uri, c_mimeType = Some ''application/mcp-error'',
                         c_text = Some [Lit (''Error accessing tool resource: Tool '' @ sq @
                                             toolName @ sq @ '' not found on server '' @
                                             sq @ s @ sq)],
                         c_blob = None\<rparr>])) \<and>
         (find (\<lambda>t. tool_name t = toolName) (tools_of connection) = Some tool \<longrightarrow>
            readResource rt st s uri =
              ([], Inr [\<lparr>c_uri = uri, c_mimeType = Some ''application/json'',
                         c_text = Some [Stringify2 (toolInfo tool s toolName)],
                         c_blob = None\<rparr>]))"
proof -
  have m: "toolResourceMatch uri = Some (s, toolName)"
    unfolding assms(3) using assms(4-7) by (rule toolResourceMatch_toolUri)
  have nc: "uri \<noteq> calculatorUri"
    using m toolResourceMatch_calculator by auto
  have nw: "\<not> prefix weatherPrefix uri"
    using m toolResourceMatch_weather by fastforce
  have rr: "readResource rt st s uri = read_tool_resource connection s uri toolName"
    using assms(1,2) nc nw m by (simp add: readResource_def)
  show ?thesis
    unfolding rr read_tool_resource_def tool_resource_try_def Let_def
    by (simp add: toolNotFound_def error_content_def json_content_def)
qed

text \<open>
  C6 as stated fails: with no tool of the requested name the call does not fail, it
  returns a response (whose one item is error-typed).
\<close>

theorem tool_resource_missing_tool_returns:
  "readResource example_runtime (example_service [example_connection [echo_tool] False])
     ''n8n'' ''mcp://n8n/synthetic/tool/missing'' =
     ([], Inr [\<lparr>c_uri = ''mcp://n8n/synthetic/tool/missing'',
                c_mimeType = Some ''application/mcp-error'',
                c_text = Some [Lit (''Error accessing tool resource: Tool '' @ sq @
                                    ''missing'' @ sq @ '' not found on server '' @
                                    sq @ ''n8n'' @ sq)],
                c_blob = None\<rparr>])"
  by (simp add: readResource_def example_service_def example_connection_def
        echo_tool_def calculatorUri_def weatherPrefix_def toolResourceMatch_def
        read_tool_resource_def tool_resource_try_def tools_of_def toolNotFound_def
        error_content_def line_terminator_def Let_def)

text \<open>
  Why the conditions on the two segments are needed: the regular expression of line 660
  takes as server segment the text up to the first slash. For the server name
  \<^verbatim>\<open>a/b\<close> the URI \<^verbatim>\<open>mcp://a/b/synthetic/tool/echo\<close> does not match, and the read is
  delegated to the provider's own \<^verbatim>\<open>readResource\<close> (a request is sent, and its
  rejection is the outcome); so is a URI whose tool name holds a line feed.
\<close>

lemma tool_resource_unmatched_is_delegated:
  "toolResourceMatch ''mcp://a/b/synthetic/tool/echo'' = None \<and>
   readResource example_runtime
     (example_service
        [(example_connection [echo_tool] False)
           \<lparr>server := (server (example_connection [echo_tool] False))\<lparr>srv_name := ''a/b''\<rparr>\<rparr>])
     ''a/b'' ''mcp://a/b/synthetic/tool/echo'' =
     ([ReadResource ''mcp://a/b/synthetic/tool/echo''], Inl (Error ''Resource not found'')) \<and>
   readResource example_runtime (example_service [example_connection [echo_tool] False])
     ''n8n'' (''mcp://n8n/synthetic/tool/ec'' @ [CHR 0x0A] @ ''ho'') =
     ([ReadResource (''mcp://n8n/synthetic/tool/ec'' @ [CHR 0x0A] @ ''ho'')],
      Inl (Error ''Resource not found''))"
  by (simp add: readResource_def example_service_def example_connection_def
        example_client_def calculatorUri_def weatherPrefix_def toolResourceMatch_def
        line_terminator_def Let_def)

theorem tool_resource_read_witness:
  "readResource example_runtime (example_service [example_connection [echo_tool] False])
     ''n8n'' ''mcp://n8n/synthetic/tool/echo'' =
     ([], Inr [\<lparr>c_uri = ''mcp://n8n/synthetic/tool/echo'',
                c_mimeType = Some ''application/json'',
                c_text = Some [Stringify2 (toolInfo echo_tool ''n8n'' ''echo'')],
                c_blob = None\<rparr>]) \<and>
   readResource example_runtime (example_service [example_connection [echo_tool] False])
     ''n8n'' ''mcp://n8n/synthetic/tool/missing'' =
     ([], Inr [\<lparr>c_uri = ''mcp://n8n/synthetic/tool/missing'',
                c_mimeType = Some ''application/mcp-error'',
                c_text = Some [Lit (''Error accessing tool resource: Tool '' @ sq @
                                    ''missing'' @ sq @ '' not found on server '' @
                                    sq @ ''n8n'' @ sq)],
                c_blob = None\<rparr>])"
  using tool_resource_read
          [where s = "''n8n''"
             and st = "example_service [example_connection [echo_tool] False]"
             and connection = "example_connection [echo_tool] False"
             and uri = "''mcp://n8n/synthetic/tool/echo''"
             and toolName = "''echo''" and tool = echo_tool and rt = example_runtime]
        tool_resource_read
          [where s = "''n8n''"
             and st = "example_service [example_connection [echo_tool] False]"
             and connection = "example_connection [echo_tool] False"
             and uri = "''mcp://n8n/synthetic/tool/missing''"
             and toolName = "''missing''" and tool = echo_tool and rt = example_runtime]
  by (simp add: example_service_def example_connection_def echo_tool_def tools_of_def
        line_terminator_def)

section \<open>Properties of the Capability Synthesizer\<close>

lemma toolUri_inj: "toolUri name a = toolUri name b \<longleftrightarrow> a = b"
  by (simp add: toolUri_def)

lemma res_uri_toolResource: "res_uri (toolResource rt name t) = toolUri name (tool_name t)"
  by (simp add: toolResource_def)

lemma synthesize_tools_fresh:
  assumes "distinct (map tool_name tools)"
      and "\<forall>t \<in> set tools. tool_name t \<noteq> ''calculator''"
      and "\<forall>t \<in> set tools. toolUri name (tool_name t) \<notin> res_uri ` set rs"
  shows "fst (synthesize_tools rt name tools (rs, ts)) = rs @ map (toolResource rt name) tools"
  using assms
proof (induction tools arbitrary: rs ts)
  case Nil
  then show ?case by simp
next
  case (Cons tool tools)
  let ?r = "toolResource rt name tool"
  have h0: "toolUri name (tool_name tool) \<notin> res_uri ` set rs"
    using Cons.prems(3) by simp
  have fresh: "\<not> list_ex (\<lambda>x. res_uri x = res_uri ?r) rs"
    unfolding list_ex_iff res_uri_toolResource using h0 by (metis imageI)
  have nc: "tool_name tool \<noteq> ''calculator''"
    using Cons.prems(2) by simp
  have d: "distinct (map tool_name tools)" and nin: "tool_name tool \<notin> tool_name ` set tools"
    using Cons.prems(1) by simp_all
  have c: "\<forall>t \<in> set tools. tool_name t \<noteq> ''calculator''"
    using Cons.prems(2) by simp
  have step: "\<forall>t \<in> set tools. toolUri name (tool_name t) \<notin> res_uri ` set (rs @ [?r])"
  proof
    fix t assume t: "t \<in> set tools"
    have a: "toolUri name (tool_name t) \<notin> res_uri ` set rs"
      using Cons.prems(3) t by simp
    have "tool_name t \<noteq> tool_name tool"
      using nin t by (metis imageI)
    then have b: "toolUri name (tool_name t) \<noteq> res_uri ?r"
      by (simp only: res_uri_toolResource toolUri_inj) simp
    show "toolUri name (tool_name t) \<notin> res_uri ` set (rs @ [?r])"
      using a b by (simp add: image_Un)
  qed
  have ih: "fst (synthesize_tools rt name tools (rs @ [?r], push_template (toolTemplate rt name tool) ts))
        = (rs @ [?r]) @ map (toolResource rt name) tools"
    using d c step by (rule Cons.IH)
  have push: "push_resource ?r rs = rs @ [?r]"
    using fresh by (simp add: push_resource_def)
  show ?case
    using nc ih by (simp only: synthesize_tools.simps push if_False) simp
qed

lemma synthesize_tools_appends:
  "\<exists>G. fst (synthesize_tools rt name tools (rs, ts)) = rs @ G \<and>
       set G \<subseteq> toolResource rt name ` {t \<in> set tools. tool_name t \<noteq> ''calculator''}"
proof (induction tools arbitrary: rs ts)
  case Nil
  then show ?case by simp
next
  case (Cons tool tools)
  let ?T = "\<lambda>ts. toolResource rt name ` {t \<in> set ts. tool_name t \<noteq> ''calculator''}"
  have mono: "?T tools \<subseteq> ?T (tool # tools)"
    by auto
  show ?case
  proof (cases "tool_name tool = ''calculator''")
    case True
    obtain G where G: "fst (synthesize_tools rt name tools (rs, ts)) = rs @ G" "set G \<subseteq> ?T tools"
      using Cons.IH by blast
    have "fst (synthesize_tools rt name (tool # tools) (rs, ts)) = rs @ G"
      using True G(1) by simp
    moreover have "set G \<subseteq> ?T (tool # tools)"
      using G(2) mono by blast
    ultimately show ?thesis by blast
  next
    case False
    let ?rs' = "push_resource (toolResource rt name tool) rs"
    let ?ts' = "push_template (toolTemplate rt name tool) ts"
    obtain G where G: "fst (synthesize_tools rt name tools (?rs', ?ts')) = ?rs' @ G" "set G \<subseteq> ?T tools"
      using Cons.IH by blast
    have step: "fst (synthesize_tools rt name (tool # tools) (rs, ts)) = ?rs' @ G"
      using False G(1) by simp
    have here: "toolResource rt name tool \<in> ?T (tool # tools)"
      using False by simp
    have "?rs' = rs \<or> ?rs' = rs @ [toolResource rt name tool]"
      by (simp add: push_resource_def)
    then show ?thesis
    proof
      assume "?rs' = rs"
      then have "fst (synthesize_tools rt name (tool # tools) (rs, ts)) = rs @ G"
        using step by simp
      moreover have "set G \<subseteq> ?T (tool # tools)"
        using G(2) mono by blast
      ultimately show ?thesis by blast
    next
      assume "?rs' = rs @ [toolResource rt name tool]"
      then have "fst (synthesize_tools rt name (tool # tools) (rs, ts)) = rs @ (toolResource rt name tool # G)"
        using step by simp
      moreover have "set (toolResource rt name tool # G) \<subseteq> ?T (tool # tools)"
        using G(2) mono here by (simp only: set_simps insert_subset) blast
      ultimately show ?thesis by blast
    qed
  qed
qed

text \<open>
  C5. When the capability fetch gave zero real resources and \<open>N\<close> tools with pairwise
  distinct names, none named \<^verbatim>\<open>calculator\<close> or \<^verbatim>\<open>weather\<close>, the synthesized resources
  are exactly the \<open>N\<close> generic entries, one per tool in the order of the tools, with the
  URIs \<^verbatim>\<open>mcp://{server}/synthetic/tool/{toolName}\<close>, pairwise distinct.
\<close>

theorem synthesize_zero_resources:
  assumes "distinct (map tool_name tools)"
      and "''calculator'' \<notin> set (map tool_name tools)"
      and "''weather'' \<notin> set (map tool_name tools)"
  shows "fst (synthesize rt name isN8n tools [] templates) = map (toolResource rt name) tools \<and>
         map res_uri (fst (synthesize rt name isN8n tools [] templates)) =
           map (\<lambda>t. ''mcp://'' @ name @ ''/synthetic/tool/'' @ tool_name t) tools \<and>
         length (fst (synthesize rt name isN8n tools [] templates)) = length tools \<and>
         distinct (map res_uri (fst (synthesize rt name isN8n tools [] templates)))"
proof -
  have nc: "\<forall>t \<in> set tools. tool_name t \<noteq> ''calculator''"
    using assms(2) by (auto simp: image_iff)
  have nw: "\<forall>t \<in> set tools. tool_name t \<noteq> ''weather''"
    using assms(3) by (auto simp: image_iff)
  have loop: "fst (synthesize_tools rt name tools ([], templates)) = [] @ map (toolResource rt name) tools"
    using assms(1) nc by (rule synthesize_tools_fresh) simp
  have nocalc: "\<not> list_ex (\<lambda>tool. tool_name tool = ''calculator'') tools"
    unfolding list_ex_iff using nc by simp
  have nowea: "\<not> list_ex (\<lambda>tool. tool_name tool = ''weather'') tools"
    unfolding list_ex_iff using nw by simp
  have res: "fst (synthesize rt name isN8n tools [] templates) = map (toolResource rt name) tools"
    using loop nocalc nowea by (simp add: synthesize_def Let_def split: prod.splits)
  have uris: "map res_uri (map (toolResource rt name) tools) =
                map (\<lambda>t. ''mcp://'' @ name @ ''/synthetic/tool/'' @ tool_name t) tools"
    by (simp add: res_uri_toolResource toolUri_def)
  have inj: "inj_on (\<lambda>t. toolUri name (tool_name t)) (set tools)"
    using assms(1) by (simp add: distinct_map inj_on_def toolUri_inj)
  have "distinct tools"
    using assms(1) by (simp add: distinct_map)
  then have "distinct (map (\<lambda>t. toolUri name (tool_name t)) tools)"
    using inj by (simp add: distinct_map)
  then have dist: "distinct (map res_uri (map (toolResource rt name) tools))"
    by (simp add: res_uri_toolResource comp_def)
  show ?thesis
    unfolding res using uris dist by simp
qed

theorem synthesize_zero_resources_witness:
  "distinct (map tool_name [echo_tool, search_tool]) \<and>
   ''calculator'' \<notin> set (map tool_name [echo_tool, search_tool]) \<and>
   ''weather'' \<notin> set (map tool_name [echo_tool, search_tool]) \<and>
   map res_uri (fst (synthesize example_runtime ''n8n'' False [echo_tool, search_tool] [] [])) =
     [''mcp://n8n/synthetic/tool/echo'', ''mcp://n8n/synthetic/tool/search''] \<and>
   length (fst (synthesize example_runtime ''n8n'' False [echo_tool, search_tool] [] [])) = 2"
  using synthesize_zero_resources
          [where tools = "[echo_tool, search_tool]" and rt = example_runtime
             and name = "''n8n''" and isN8n = False and templates = "[]"]
  by (simp add: echo_tool_def search_tool_def res_uri_toolResource toolUri_def)

text \<open>
  C7, as the code has it. The synthesized resource list is in insertion order: the real
  resources first, then the generic per-tool entries (each the entry of a tool not named
  \<^verbatim>\<open>calculator\<close>), and last the calculator entry and then the weather entry, where
  they are added.
\<close>

theorem synthesize_order:
  "\<exists>G S. fst (synthesize rt name isN8n tools actual templates) = actual @ G @ S \<and>
         set G \<subseteq> toolResource rt name ` {t \<in> set tools. tool_name t \<noteq> ''calculator''} \<and>
         S \<in> {[], [calculatorResource], [weatherResource], [calculatorResource, weatherResource]}"
proof -
  define r1 where "r1 = (if isN8n \<or> actual = [] then synthesize_tools rt name tools (actual, templates) else (actual, templates))"
  obtain G where G: "fst r1 = actual @ G" "set G \<subseteq> toolResource rt name ` {t \<in> set tools. tool_name t \<noteq> ''calculator''}"
  proof (cases "isN8n \<or> actual = []")
    case True
    then show ?thesis using synthesize_tools_appends[of rt name tools actual templates] that
      by (auto simp: r1_def)
  next
    case False
    then show ?thesis using that[of "[]"] by (simp add: r1_def)
  qed
  define r2 where "r2 = (if list_ex (\<lambda>tool. tool_name tool = ''calculator'') tools then push_resource calculatorResource (fst r1) else fst r1)"
  define r3 where "r3 = (if list_ex (\<lambda>tool. tool_name tool = ''weather'') tools then push_resource weatherResource r2 else r2)"
  have r2: "r2 = fst r1 \<or> r2 = fst r1 @ [calculatorResource]"
    by (simp add: r2_def push_resource_def)
  have r3: "r3 = r2 \<or> r3 = r2 @ [weatherResource]"
    by (simp add: r3_def push_resource_def)
  have final: "fst (synthesize rt name isN8n tools actual templates) = r3"
    unfolding synthesize_def r3_def r2_def r1_def Let_def
    by (simp split: prod.splits)
  from r2 r3 have "\<exists>S. r3 = fst r1 @ S \<and> S \<in> {[], [calculatorResource], [weatherResource], [calculatorResource, weatherResource]}"
    by auto
  then obtain S where S: "r3 = fst r1 @ S"
    "S \<in> {[], [calculatorResource], [weatherResource], [calculatorResource, weatherResource]}"
    by blast
  have "fst (synthesize rt name isN8n tools actual templates) = actual @ G @ S"
    using final S(1) G(1) by simp
  then show ?thesis
    using G(2) S(2) by blast
qed

theorem synthesize_order_witness:
  "\<exists>G S. fst (synthesize example_runtime ''n8n'' False [calculator_tool, echo_tool] [] []) =
            [] @ G @ S \<and>
         set G \<subseteq> toolResource example_runtime ''n8n'' `
                   {t \<in> set [calculator_tool, echo_tool]. tool_name t \<noteq> ''calculator''} \<and>
         S \<in> {[], [calculatorResource], [weatherResource], [calculatorResource, weatherResource]}"
  by (rule synthesize_order)

text \<open>
  C7 as stated fails: with no real resources and the tools \<^verbatim>\<open>calculator\<close> and
  \<^verbatim>\<open>echo\<close>, the generic entry of \<^verbatim>\<open>echo\<close> comes before the calculator entry; with
  \<^verbatim>\<open>weather\<close> and \<^verbatim>\<open>echo\<close>, both generic entries come before the weather entry.
\<close>

theorem specials_come_after_generic_entries:
  "fst (synthesize example_runtime ''n8n'' False [calculator_tool, echo_tool] [] []) =
     [toolResource example_runtime ''n8n'' echo_tool, calculatorResource] \<and>
   fst (synthesize example_runtime ''n8n'' False [weather_tool, echo_tool] [] []) =
     [toolResource example_runtime ''n8n'' weather_tool,
      toolResource example_runtime ''n8n'' echo_tool, weatherResource]"
  by (simp add: synthesize_def push_resource_def push_template_def res_uri_toolResource
        toolUri_def calculatorResource_def weatherResource_def template_resource_def
        calculatorResourceTemplate_def weatherResourceTemplate_def
        calculator_tool_def echo_tool_def weather_tool_def)

section \<open>Properties of the Connection Manager\<close>

subsection \<open>Lists of connections\<close>

lemma find_filter_same:
  "find (\<lambda>conn. srv_name (server conn) = n)
     (filter (\<lambda>conn. srv_name (server conn) \<noteq> n) conns) = None"
  by (induction conns) auto

lemma find_filter_other:
  "m \<noteq> n \<Longrightarrow>
   find (\<lambda>conn. srv_name (server conn) = m)
     (filter (\<lambda>conn. srv_name (server conn) \<noteq> n) conns) =
   find (\<lambda>conn. srv_name (server conn) = m) conns"
  by (induction conns) auto

lemma find_None_filter:
  "find (\<lambda>conn. srv_name (server conn) = n) conns = None \<Longrightarrow>
   filter (\<lambda>conn. srv_name (server conn) \<noteq> n) conns = conns"
  by (induction conns) (auto split: if_splits)

lemma find_snoc:
  "find P (xs @ [x]) = (case find P xs of Some y \<Rightarrow> Some y | None \<Rightarrow> if P x then Some x else None)"
  by (induction xs) auto

lemma mutate_server_absent:
  "find (\<lambda>conn. srv_name (server conn) = n) conns = None \<Longrightarrow> mutate_server n f conns = conns"
  by (induction conns) (auto split: if_splits)

lemma mutate_server_snoc:
  "find (\<lambda>conn. srv_name (server conn) = n) conns = None \<Longrightarrow> srv_name (server c) = n \<Longrightarrow>
   mutate_server n f (conns @ [c]) = conns @ [c\<lparr>server := f (server c)\<rparr>]"
  by (induction conns) (auto split: if_splits)

subsection \<open>What one operation does to the connections and to the trace\<close>

lemma connections_updateResourceAvailability [simp]:
  "connections (updateResourceAvailability st) = connections st"
  by (simp add: updateResourceAvailability_def)

lemma trace_updateResourceAvailability [simp]:
  "trace (updateResourceAvailability st) = trace st"
  by (simp add: updateResourceAvailability_def)

lemma connections_deleteConnection:
  "connections (deleteConnection n st) =
     filter (\<lambda>conn. srv_name (server conn) \<noteq> n) (connections st)"
  by (simp add: deleteConnection_def getServerConnection_def find_None_filter split: option.splits)

lemma deleteConnection_absent:
  "find (\<lambda>conn. srv_name (server conn) = n) (connections st) = None \<Longrightarrow> deleteConnection n st = st"
  by (simp add: deleteConnection_def getServerConnection_def)

lemma connectToServer_unbuildable:
  assumes "buildTransport rt n config \<noteq> None"
  shows "connections (connectToServer remote rt n config st) =
           filter (\<lambda>conn. srv_name (server conn) \<noteq> n) (connections st)"
    and "trace (connectToServer remote rt n config st) = trace st"
  using assms
  by (auto simp: connectToServer_def connect_failed_def Let_def mutate_server_absent find_filter_same)

lemma connectToServer_buildable:
  assumes "buildTransport rt n config = None"
  shows "\<exists>c. connections (connectToServer remote rt n config st) =
               filter (\<lambda>conn. srv_name (server conn) \<noteq> n) (connections st) @ [c] \<and>
             srv_name (server c) = n \<and> srv_config (server c) = config"
proof -
  let ?F = "filter (\<lambda>conn. srv_name (server conn) \<noteq> n) (connections st)"
  let ?c = "\<lparr>server = \<lparr>srv_name = n, srv_config = config,
                         srv_status = connecting, srv_error = None,
                         srv_tools = None, srv_resources = None,
                         srv_resourceTemplates = None, srv_disabled = False\<rparr>,
              client = fst (remote n), transport = snd (remote n)\<rparr>"
  have absent: "find (\<lambda>conn. srv_name (server conn) = n) ?F = None"
    by (rule find_filter_same)
  have mut: "\<And>f. mutate_server n f (?F @ [?c]) = ?F @ [?c\<lparr>server := f (server ?c)\<rparr>]"
    using absent by (rule mutate_server_snoc) simp
  show ?thesis
  proof (cases "cl_connect (fst (remote n))")
    case None
    then have "connections (connectToServer remote rt n config st) =
                 ?F @ [?c\<lparr>server := connected_server rt n config ?c\<rparr>]"
      using assms by (simp add: connectToServer_def Let_def mut)
    moreover have "srv_name (connected_server rt n config ?c) = n"
      and "srv_config (connected_server rt n config ?c) = config"
      by (simp_all add: connected_server_def Let_def split: prod.splits)
    ultimately show ?thesis by simp
  next
    case (Some e)
    then have "connections (connectToServer remote rt n config st) =
                 ?F @ [?c\<lparr>server := appendErrorMessage (message_of e)
                                        ((server ?c)\<lparr>srv_status := disconnected\<rparr>)\<rparr>]"
      using assms by (simp add: connectToServer_def connect_failed_def Let_def mut)
    then show ?thesis by (simp add: appendErrorMessage_def)
  qed
qed

lemma connectToServer_find_other:
  assumes "m \<noteq> n"
  shows "find (\<lambda>conn. srv_name (server conn) = m) (connections (connectToServer remote rt n config st)) =
         find (\<lambda>conn. srv_name (server conn) = m) (connections st)"
proof (cases "buildTransport rt n config")
  case None
  then obtain c where c: "connections (connectToServer remote rt n config st) =
      filter (\<lambda>conn. srv_name (server conn) \<noteq> n) (connections st) @ [c]" "srv_name (server c) = n"
    using connectToServer_buildable by blast
  show ?thesis
    unfolding c(1) using assms c(2) by (simp add: find_snoc find_filter_other split: option.splits)
next
  case (Some e)
  then show ?thesis
    using assms by (simp add: connectToServer_unbuildable(1) find_filter_other)
qed

lemma connectToServer_settles: "settled rt (connections (connectToServer remote rt n config st)) (n, config)"
proof (cases "buildTransport rt n config")
  case None
  then obtain c where c: "connections (connectToServer remote rt n config st) =
      filter (\<lambda>conn. srv_name (server conn) \<noteq> n) (connections st) @ [c]"
      "srv_name (server c) = n" "srv_config (server c) = config"
    using connectToServer_buildable by blast
  show ?thesis
    unfolding c(1) settled_def using c(2,3) by (simp add: find_snoc find_filter_same)
next
  case (Some e)
  then show ?thesis
    by (simp add: settled_def connectToServer_unbuildable(1) find_filter_same)
qed

lemma connectToServer_names:
  "set (map (\<lambda>conn. srv_name (server conn)) (connections (connectToServer remote rt n config st)))
     \<subseteq> insert n (set (map (\<lambda>conn. srv_name (server conn)) (connections st)))"
proof (cases "buildTransport rt n config")
  case None
  then obtain c where c: "connections (connectToServer remote rt n config st) =
      filter (\<lambda>conn. srv_name (server conn) \<noteq> n) (connections st) @ [c]" "srv_name (server c) = n"
    using connectToServer_buildable by blast
  show ?thesis
    unfolding c(1) using c(2) by auto
next
  case (Some e)
  then show ?thesis
    by (auto simp: connectToServer_unbuildable(1))
qed

subsection \<open>One entry of the configuration\<close>

lemma reconcile_entry_settles:
  "settled rt (connections (reconcile_entry remote rt st (n, config))) (n, config)"
proof (cases "find (\<lambda>conn. srv_name (server conn) = n) (connections st)")
  case None
  then show ?thesis by (simp add: reconcile_entry_def connectToServer_settles)
next
  case (Some cur)
  show ?thesis
  proof (cases "config \<noteq> srv_config (server cur)")
    case True
    then show ?thesis using Some by (simp add: reconcile_entry_def connectToServer_settles)
  next
    case False
    then show ?thesis using Some by (simp add: reconcile_entry_def settled_def)
  qed
qed

lemma reconcile_entry_find_other:
  "m \<noteq> n \<Longrightarrow>
   find (\<lambda>conn. srv_name (server conn) = m) (connections (reconcile_entry remote rt st (n, config))) =
   find (\<lambda>conn. srv_name (server conn) = m) (connections st)"
  by (simp add: reconcile_entry_def connectToServer_find_other connections_deleteConnection
        find_filter_other split: option.splits)

lemma reconcile_entry_keeps_settled:
  assumes "m \<noteq> n" and "settled rt (connections st) (m, c)"
  shows "settled rt (connections (reconcile_entry remote rt st (n, config))) (m, c)"
  using assms(2) unfolding settled_def
  by (simp add: reconcile_entry_find_other[OF assms(1)])

lemma reconcile_entry_names:
  "set (map (\<lambda>conn. srv_name (server conn)) (connections (reconcile_entry remote rt st (n, config))))
     \<subseteq> insert n (set (map (\<lambda>conn. srv_name (server conn)) (connections st)))"
proof (cases "find (\<lambda>conn. srv_name (server conn) = n) (connections st)")
  case None
  then show ?thesis
    using connectToServer_names[of remote rt n config st] by (simp add: reconcile_entry_def)
next
  case (Some cur)
  show ?thesis
  proof (cases "config \<noteq> srv_config (server cur)")
    case True
    have "set (map (\<lambda>conn. srv_name (server conn)) (connections (deleteConnection n st)))
            \<subseteq> set (map (\<lambda>conn. srv_name (server conn)) (connections st))"
      by (auto simp: connections_deleteConnection)
    then show ?thesis
      using Some True connectToServer_names[of remote rt n config "deleteConnection n st"]
      by (simp add: reconcile_entry_def) blast
  next
    case False
    then show ?thesis using Some by (auto simp: reconcile_entry_def)
  qed
qed

lemma reconcile_entry_settled_noop:
  assumes "settled rt (connections st) (n, config)"
  shows "connections (reconcile_entry remote rt st (n, config)) = connections st"
    and "trace (reconcile_entry remote rt st (n, config)) = trace st"
proof -
  show "connections (reconcile_entry remote rt st (n, config)) = connections st"
  proof (cases "find (\<lambda>conn. srv_name (server conn) = n) (connections st)")
    case None
    then have "buildTransport rt n config \<noteq> None"
      using assms by (simp add: settled_def)
    then show ?thesis
      using None by (simp add: reconcile_entry_def connectToServer_unbuildable(1) find_None_filter)
  next
    case (Some cur)
    then show ?thesis using assms by (simp add: reconcile_entry_def settled_def)
  qed
  show "trace (reconcile_entry remote rt st (n, config)) = trace st"
  proof (cases "find (\<lambda>conn. srv_name (server conn) = n) (connections st)")
    case None
    then have "buildTransport rt n config \<noteq> None"
      using assms by (simp add: settled_def)
    then show ?thesis
      using None by (simp add: reconcile_entry_def connectToServer_unbuildable(2))
  next
    case (Some cur)
    then show ?thesis using assms by (simp add: reconcile_entry_def settled_def)
  qed
qed

subsection \<open>The two loops of reconciliation\<close>

lemma reconcile_loop_settles:
  assumes "distinct (map fst entries)"
  shows "\<forall>entry \<in> set entries.
           settled rt (connections (foldl (reconcile_entry remote rt) st entries)) entry"
  using assms
proof (induction entries rule: rev_induct)
  case Nil
  then show ?case by simp
next
  case (snoc e entries)
  obtain n config where e: "e = (n, config)" by (cases e)
  let ?st = "foldl (reconcile_entry remote rt) st entries"
  have d: "distinct (map fst entries)" and fresh: "n \<notin> fst ` set entries"
    using snoc.prems e by simp_all
  have old: "\<forall>entry \<in> set entries. settled rt (connections ?st) entry"
    using snoc.IH d by blast
  have "settled rt (connections (reconcile_entry remote rt ?st (n, config))) entry"
    if "entry \<in> set (entries @ [e])" for entry
  proof (cases "entry = e")
    case True
    then show ?thesis using e reconcile_entry_settles by simp
  next
    case False
    then have mem: "entry \<in> set entries" using that by simp
    obtain m c where mc: "entry = (m, c)" by (cases entry)
    have "m \<noteq> n" using mem fresh mc by force
    moreover have "settled rt (connections ?st) (m, c)" using old mem mc by blast
    ultimately show ?thesis unfolding mc by (rule reconcile_entry_keeps_settled)
  qed
  then show ?case by (simp add: e)
qed

lemma reconcile_loop_names:
  "set (map (\<lambda>conn. srv_name (server conn)) (connections (foldl (reconcile_entry remote rt) st entries)))
     \<subseteq> fst ` set entries \<union> set (map (\<lambda>conn. srv_name (server conn)) (connections st))"
proof (induction entries rule: rev_induct)
  case Nil
  then show ?case by simp
next
  case (snoc e entries)
  obtain n config where e: "e = (n, config)" by (cases e)
  show ?case
    using snoc.IH reconcile_entry_names[of remote rt "foldl (reconcile_entry remote rt) st entries" n config]
    unfolding e by (simp del: set_map) blast
qed

lemma reconcile_loop_settled_noop:
  assumes "\<forall>entry \<in> set entries. settled rt (connections st) entry"
  shows "connections (foldl (reconcile_entry remote rt) st entries) = connections st \<and>
         trace (foldl (reconcile_entry remote rt) st entries) = trace st"
  using assms
proof (induction entries rule: rev_induct)
  case Nil
  then show ?case by simp
next
  case (snoc e entries)
  obtain n config where e: "e = (n, config)" by (cases e)
  let ?st = "foldl (reconcile_entry remote rt) st entries"
  have ih: "connections ?st = connections st" "trace ?st = trace st"
    using snoc by simp_all
  have "settled rt (connections ?st) (n, config)"
    using snoc.prems e ih(1) by simp
  then show ?case
    using ih by (simp add: e reconcile_entry_settled_noop)
qed

lemma delete_loop_connections:
  "connections (foldl (\<lambda>s name. if name \<notin> N then deleteConnection name s else s) st names) =
     filter (\<lambda>conn. srv_name (server conn) \<in> N \<or> srv_name (server conn) \<notin> set names)
       (connections st)"
proof (induction names arbitrary: st)
  case Nil
  then show ?case by simp
next
  case (Cons name names)
  show ?case
    by (auto simp: Cons.IH connections_deleteConnection intro!: filter_cong)
qed

lemma delete_loop_noop:
  assumes "\<forall>conn \<in> set (connections st). srv_name (server conn) \<in> N"
  shows "foldl (\<lambda>s name. if name \<notin> N then deleteConnection name s else s) st names = st"
proof (induction names)
  case Nil
  then show ?case by simp
next
  case (Cons name names)
  have "name \<notin> N \<Longrightarrow> deleteConnection name st = st"
  proof -
    assume "name \<notin> N"
    then have "find (\<lambda>conn. srv_name (server conn) = name) (connections st) = None"
      using assms by (auto simp: find_None_iff)
    then show ?thesis by (rule deleteConnection_absent)
  qed
  then show ?case using Cons by auto
qed

lemma set_uniq [simp]: "set (uniq xs) = set xs"
  by (induction xs) auto

lemma updateServerConnections_names:
  "\<forall>conn \<in> set (connections (updateServerConnections remote rt serverConfigs st)).
     srv_name (server conn) \<in> fst ` set serverConfigs"
proof -
  let ?N = "set (map fst serverConfigs)"
  let ?st1 = "foldl (\<lambda>s name. if name \<notin> ?N then deleteConnection name s else s) st
                (uniq (map (\<lambda>conn. srv_name (server conn)) (connections st)))"
  have "set (map (\<lambda>conn. srv_name (server conn)) (connections ?st1)) \<subseteq> fst ` set serverConfigs"
    by (auto simp: delete_loop_connections)
  then have "set (map (\<lambda>conn. srv_name (server conn))
               (connections (foldl (reconcile_entry remote rt) ?st1 serverConfigs)))
             \<subseteq> fst ` set serverConfigs"
    using reconcile_loop_names[of remote rt ?st1 serverConfigs] by blast
  then show ?thesis
    by (auto simp: updateServerConnections_def Let_def)
qed

lemma updateServerConnections_settles:
  assumes "distinct (map fst serverConfigs)"
  shows "\<forall>entry \<in> set serverConfigs.
           settled rt (connections (updateServerConnections remote rt serverConfigs st)) entry"
  using reconcile_loop_settles[OF assms] by (simp add: updateServerConnections_def Let_def)

text \<open>
  C4. Reconciliation is idempotent: for every configuration (its names pairwise
  distinct, as the keys of a record are), running \<^verbatim>\<open>updateServerConnections\<close> a second
  time right after a completed run with the same configuration leaves the list of
  connections unchanged, whatever the providers answer during either run, and performs
  no close and no handshake: no connection is deleted or recreated.
\<close>

theorem reconciliation_idempotent:
  assumes "distinct (map fst serverConfigs)"
  shows "connections (updateServerConnections remote2 rt serverConfigs
                        (updateServerConnections remote1 rt serverConfigs st)) =
           connections (updateServerConnections remote1 rt serverConfigs st) \<and>
         trace (updateServerConnections remote2 rt serverConfigs
                  (updateServerConnections remote1 rt serverConfigs st)) =
           trace (updateServerConnections remote1 rt serverConfigs st)"
proof -
  let ?st1 = "updateServerConnections remote1 rt serverConfigs st"
  have names: "\<forall>conn \<in> set (connections ?st1). srv_name (server conn) \<in> set (map fst serverConfigs)"
    using updateServerConnections_names[of remote1 rt serverConfigs st] by simp
  have first: "foldl (\<lambda>s name. if name \<notin> set (map fst serverConfigs) then deleteConnection name s else s)
                 ?st1 (uniq (map (\<lambda>conn. srv_name (server conn)) (connections ?st1))) = ?st1"
    using names by (rule delete_loop_noop)
  have run2: "updateServerConnections remote2 rt serverConfigs ?st1 =
                foldl (reconcile_entry remote2 rt) ?st1 serverConfigs"
    unfolding updateServerConnections_def[of remote2 rt serverConfigs ?st1] Let_def first ..
  have "\<forall>entry \<in> set serverConfigs. settled rt (connections ?st1) entry"
    using assms by (rule updateServerConnections_settles)
  then show ?thesis
    unfolding run2 by (rule reconcile_loop_settled_noop)
qed

lemma connected_server_name_config:
  "srv_name (connected_server rt n config c) = n"
  "srv_config (connected_server rt n config c) = config"
  by (simp_all add: connected_server_def Let_def split: prod.splits)

lemma new_URL_example: "new_URL example_runtime v = None"
  by (simp add: example_runtime_def)

theorem reconciliation_idempotent_witness:
  "distinct (map fst example_configs) \<and>
   connections (updateServerConnections (example_remote False) example_runtime example_configs
                  (updateServerConnections (example_remote True) example_runtime example_configs
                     (example_service [example_connection [] False]))) =
     connections (updateServerConnections (example_remote True) example_runtime example_configs
                    (example_service [example_connection [] False])) \<and>
   trace (updateServerConnections (example_remote False) example_runtime example_configs
            (updateServerConnections (example_remote True) example_runtime example_configs
               (example_service [example_connection [] False]))) =
     trace (updateServerConnections (example_remote True) example_runtime example_configs
              (example_service [example_connection [] False])) \<and>
   map (\<lambda>conn. srv_name (server conn))
     (connections (updateServerConnections (example_remote True) example_runtime example_configs
                     (example_service []))) = [''n8n''] \<and>
   trace (updateServerConnections (example_remote True) example_runtime example_configs
            (example_service [])) = [Connect ''n8n'']"
proof -
  have d: "distinct (map fst example_configs)"
    by (simp add: example_configs_def)
  have run: "map (\<lambda>conn. srv_name (server conn))
     (connections (updateServerConnections (example_remote True) example_runtime example_configs
                     (example_service []))) = [''n8n''] \<and>
   trace (updateServerConnections (example_remote True) example_runtime example_configs
            (example_service [])) = [Connect ''n8n'']"
    by (simp add: updateServerConnections_def reconcile_entry_def connectToServer_def
          buildTransport_def buildStdioClientTransport_def buildSseClientTransport_def
          connect_failed_def example_configs_def example_config_def example_service_def
          example_remote_def example_client_def new_URL_example
          connected_server_name_config Let_def)
  show ?thesis
    using d run
      reconciliation_idempotent
        [OF d, where ?remote1.0 = "example_remote True" and ?remote2.0 = "example_remote False"
           and rt = example_runtime and st = "example_service [example_connection [] False]"]
    by simp
qed

text \<open>
  C9, as the code has it. For every server name unknown to the manager,
  \<^verbatim>\<open>restartConnection(name)\<close> returns without an error and changes nothing: no
  connection is closed and none is opened. (What a failing reconnect of a known name
  gives is not part of this statement.)
\<close>

theorem restart_unknown_is_noop:
  assumes "find (\<lambda>conn. srv_name (server conn) = serverName) (connections st) = None"
  shows "restartConnection remote rt serverName st = Inr st"
  using assms by (simp add: restartConnection_def)

theorem restart_unknown_is_noop_witness:
  "find (\<lambda>conn. srv_name (server conn) = ''ghost'')
     (connections (example_service [example_connection [] False])) = None \<and>
   restartConnection (example_remote True) example_runtime ''ghost''
     (example_service [example_connection [] False]) =
     Inr (example_service [example_connection [] False])"
  using restart_unknown_is_noop
          [where serverName = "''ghost''"
             and st = "example_service [example_connection [] False]"
             and remote = "example_remote True" and rt = example_runtime]
  by (simp add: example_service_def example_connection_def)

text \<open>
  C9 as stated fails: restarting a name the manager does not know returns normally, with
  the service unchanged; and restarting a known connection whose handshake then fails
  returns normally as well, the connection left \<open>disconnected\<close> with the failure message.
\<close>

theorem restart_does_not_reject:
  "restartConnection (example_remote False) example_runtime ''ghost'' (example_service []) =
     Inr (example_service []) \<and>
   map_sum id
     (\<lambda>st. map (\<lambda>conn. (srv_name (server conn), srv_status (server conn), srv_error (server conn)))
              (connections st))
     (restartConnection (example_remote False) example_runtime ''n8n''
        (example_service [example_connection [] False])) =
     Inr [(''n8n'', disconnected, Some ''SSE error: connection refused'')]"
  by (simp add: restartConnection_def connectToServer_def deleteConnection_def
        getServerConnection_def buildTransport_def buildSseClientTransport_def
        connect_failed_def appendErrorMessage_def example_service_def example_connection_def
        example_config_def example_remote_def example_client_def new_URL_example
        updateResourceAvailability_def Let_def)

section \<open>Properties of selection validation and of the retry loop\<close>

text \<open>
  C8. \<^verbatim>\<open>validateToolSelection\<close> accepts the selection
  \<^verbatim>\<open>{"serverName":"n8n","toolName":"calculator","arguments":{"input":"2+2"}}\<close>, returning
  success with that data, and rejects \<^verbatim>\<open>{"serverName":"n8n"}\<close>, returning a failure
  whose message holds the list of both violations (the missing \<^verbatim>\<open>toolName\<close> and the
  missing \<^verbatim>\<open>arguments\<close>). For every compiled schema, the failure message holds the
  whole list of errors the schema reported, not only the first one.
\<close>

theorem validateToolSelection_accepts_and_rejects:
  "validateToolSelection rt ToolSelectionSchema (ObjectData selection_ok) = Success selection_ok \<and>
   validateToolSelection rt ToolSelectionSchema (ObjectData selection_bad) =
     Failure [Lit ''Tool selection validation failed: '',
              Stringify2 (JArr [required_error ''toolName'', required_error ''arguments''])] \<and>
   (validate v \<noteq> [] \<longrightarrow>
      validateToolSelection rt validate (ObjectData v) =
        Failure [Lit ''Tool selection validation failed: '', Stringify2 (JArr (validate v))])"
proof -
  have ok: "ToolSelectionSchema selection_ok = []"
    by (simp add: ToolSelectionSchema_def selection_ok_def required_errors_def
          property_errors_def)
  have bad: "ToolSelectionSchema selection_bad =
               [required_error ''toolName'', required_error ''arguments'']"
    by (simp add: ToolSelectionSchema_def selection_bad_def required_errors_def
          property_errors_def)
  show ?thesis
    by (auto simp: validateToolSelection_def ok bad split: list.splits)
qed

theorem validateToolSelection_accepts_and_rejects_witness:
  "ToolSelectionSchema selection_bad \<noteq> [] \<and>
   validateToolSelection example_runtime ToolSelectionSchema (ObjectData selection_ok) =
     Success selection_ok \<and>
   validateToolSelection example_runtime ToolSelectionSchema (ObjectData selection_bad) =
     Failure [Lit ''Tool selection validation failed: '',
              Stringify2 (JArr (ToolSelectionSchema selection_bad))] \<and>
   length (ToolSelectionSchema selection_bad) = 2"
  using validateToolSelection_accepts_and_rejects
          [where rt = example_runtime and validate = ToolSelectionSchema and v = selection_bad]
  by (simp add: ToolSelectionSchema_def selection_bad_def required_errors_def
        property_errors_def)

text \<open>
  C3. For every first response of the model and every validator that rejects all inputs,
  the retry loop performs exactly the configured maximum number of attempts and then
  ends with the outcome Abandoned: it returns, and returns no error.
\<close>

theorem retry_loop_abandons_after_maximum:
  assumes "\<forall>response. \<exists>errorMessage. validationFn response = Failure errorMessage"
  shows "withModelRetry maxRetries validationFn createFeedbackPrompt model response =
           (Abandoned, maxRetries)"
proof (induction maxRetries arbitrary: response)
  case 0
  show ?case by simp
next
  case (Suc budget)
  obtain errorMessage where "validationFn response = Failure errorMessage"
    using assms by blast
  then show ?case
    by (simp add: Suc.IH)
qed

lemma validateResourceSelection_rejecting:
  "\<exists>errorMessage. validateResourceSelection rt (\<lambda>v. [err]) response = Failure errorMessage"
  by (cases response) (auto simp add: validateResourceSelection_def split: sum.splits)

theorem retry_loop_abandons_after_maximum_witness:
  "(\<forall>response. \<exists>errorMessage.
      validateResourceSelection example_runtime (\<lambda>v. [type_error [] ''object'']) response =
        Failure errorMessage) \<and>
   withModelRetry 3 (validateResourceSelection example_runtime (\<lambda>v. [type_error [] ''object'']))
     (\<lambda>response errorMessage. Lit ''Your previous resource selection response had errors: ''
                                # errorMessage)
     (\<lambda>prompt. StringData ''I cannot decide'')
     (StringData ''Sure! Here is the resource you asked for'') = (Abandoned, 3)"
  using retry_loop_abandons_after_maximum
          [where validationFn =
                   "validateResourceSelection example_runtime (\<lambda>v. [type_error [] ''object''])"
             and maxRetries = 3
             and createFeedbackPrompt =
                   "\<lambda>response errorMessage.
                      Lit ''Your previous resource selection response had errors: '' # errorMessage"
             and model = "\<lambda>prompt. StringData ''I cannot decide''"
             and response = "StringData ''Sure! Here is the resource you asked for''"]
        validateResourceSelection_rejecting
  by blast

end
